theory Spec2Isabelle
  imports Complex_Main "HOL-Library.Product_Lexorder"
begin

section \<open>Spatial comfort: moisture plumes, MRT interpolation and matrix caches\<close>

text \<open>
  A shallow embedding of \<^verbatim>\<open>external_comfort/spatial.py\<close> (classes
  \<^verbatim>\<open>SpatialComfort\<close> and \<^verbatim>\<open>SpatialComfortResult\<close>) and of
  \<^verbatim>\<open>evaporative_cooling_effect\<close> in \<^verbatim>\<open>ladybugtools_toolkit/helpers.py\<close>.
  Python floats are modelled as \<open>real\<close>; a float that may be NaN is a \<open>real option\<close>
  with \<open>None\<close> for NaN. The rounding of float arithmetic is outside the model; the
  casts \<^verbatim>\<open>.astype(np.float16)\<close> are modelled (\<open>astype_float16\<close>). Exceptions are values
  of \<open>py_error\<close>, returned as \<open>Inl\<close>.
\<close>

datatype py_error = ValueError | FileNotFoundError | AttributeError | IndexError

subsection \<open>Evaporative cooling (helpers.py)\<close>

text \<open>
  \<^verbatim>\<open>evaporative_cooling_effect(dry_bulb_temperature, relative_humidity,
  evaporative_cooling_effectiveness, atmospheric_pressure=None)\<close>.
  The wet-bulb temperature comes from \<^verbatim>\<open>ladybug.psychrometrics.wet_bulb_from_db_rh\<close>,
  an external library function: it is the first parameter of the model.
\<close>

definition evaporative_cooling_effect ::
  "(real \<Rightarrow> real \<Rightarrow> real \<Rightarrow> real) \<Rightarrow> real \<Rightarrow> real \<Rightarrow> real \<Rightarrow> real option \<Rightarrow> real \<times> real" where
  "evaporative_cooling_effect wet_bulb_from_db_rh dry_bulb_temperature relative_humidity
       evaporative_cooling_effectiveness atmospheric_pressure =
     (let pressure = (case atmospheric_pressure of None \<Rightarrow> 101325 | Some p \<Rightarrow> p);
          wet_bulb_temperature = wet_bulb_from_db_rh dry_bulb_temperature relative_humidity pressure;
          new_dbt = dry_bulb_temperature
            - ((dry_bulb_temperature - wet_bulb_temperature) * evaporative_cooling_effectiveness);
          new_rh = (relative_humidity * (1 - evaporative_cooling_effectiveness))
            + evaporative_cooling_effectiveness * 100
      in if new_rh > 100 then (wet_bulb_temperature, 100) else (new_dbt, new_rh))"

text \<open>
  A stand-in for the psychrometric library function, used only to evaluate the model at
  concrete inputs: the wet bulb lies below the dry bulb by a fifth of the humidity deficit.
\<close>

definition sample_wet_bulb :: "real \<Rightarrow> real \<Rightarrow> real \<Rightarrow> real" where
  "sample_wet_bulb dbt rh pressure = dbt - (100 - rh) / 5"

subsection \<open>Radial decay (\<^verbatim>\<open>_distribute\<close>)\<close>

text \<open>
  \<^verbatim>\<open>np.interp(distance, [0, max_distance], [0, 1])\<close>: numpy returns the right value
  above the last abscissa, the left value below the first, the last ordinate at the last
  abscissa, and the linear interpolant \<open>slope * (x - 0) + 0\<close> with
  \<open>slope = (1 - 0) / (max_distance - 0)\<close> in between.
\<close>

definition np_interp_unit :: "real \<Rightarrow> real \<Rightarrow> real" where
  "np_interp_unit x max_distance =
     (if x > max_distance then 1
      else if x < 0 then 0
      else if x \<ge> max_distance then 1
      else (1 - 0) / (max_distance - 0) * (x - 0) + 0)"

text \<open>The three distribution profiles of \<^verbatim>\<open>_distribute\<close>, by name; any other name raises.\<close>

definition curve :: "string \<Rightarrow> (real \<Rightarrow> real) option" where
  "curve curve_type =
     (if curve_type = ''linear'' then Some (\<lambda>distance. 1 - distance)
      else if curve_type = ''parabolic'' then Some (\<lambda>distance. - (distance ^ 2) + 1)
      else if curve_type = ''sigmoid'' then
        Some (\<lambda>distance. 1 - (0.5 * (sin (distance * pi - pi / 2) + 1)))
      else None)"

text \<open>\<^verbatim>\<open>_distribute(magnitude, distance, max_distance, curve_type)\<close> on one distance.\<close>

definition distribute :: "real \<Rightarrow> real \<Rightarrow> real \<Rightarrow> string \<Rightarrow> py_error + real" where
  "distribute magnitude distance max_distance curve_type =
     (case curve curve_type of
        None \<Rightarrow> Inl ValueError
      | Some f \<Rightarrow> Inr (f (np_interp_unit distance max_distance) * magnitude))"

text \<open>
  The same call on the array \<^verbatim>\<open>moisture_source_distances[idx]\<close> (one row per grid
  point, one column per point of the source): numpy applies the arithmetic element-wise.
\<close>

definition distribute_array ::
  "real \<Rightarrow> real list list \<Rightarrow> real \<Rightarrow> string \<Rightarrow> py_error + real list list" where
  "distribute_array magnitude distances max_distance curve_type =
     (case curve curve_type of
        None \<Rightarrow> Inl ValueError
      | Some f \<Rightarrow>
          Inr (map (map (\<lambda>distance. f (np_interp_unit distance max_distance) * magnitude)) distances))"

text \<open>The constants at the head of \<^verbatim>\<open>moisture_source_matrix_unique\<close>.\<close>

definition distance_around_sources_in_calm_wind :: real where
  "distance_around_sources_in_calm_wind = 5"

definition wind_speed_multiplier_for_distances :: real where
  "wind_speed_multiplier_for_distances = 10"

definition angle_width :: real where
  "angle_width = 12"

text \<open>
  The third argument of the two \<^verbatim>\<open>_distribute\<close> calls in
  \<^verbatim>\<open>moisture_source_matrix_unique\<close>: the branch on \<^verbatim>\<open>ws == 0\<close>.
\<close>

definition max_influence_distance :: "real \<Rightarrow> real" where
  "max_influence_distance ws =
     (if ws = 0 then distance_around_sources_in_calm_wind
      else ws * wind_speed_multiplier_for_distances)"

subsection \<open>Angular mask\<close>

text \<open>
  The \<^verbatim>\<open># ANGLE MASK\<close> block of \<^verbatim>\<open>moisture_source_matrix_unique\<close> for one
  entry \<open>angle\<close> of \<^verbatim>\<open>moisture_source_angles[idx]\<close>, which is the clockwise angle from
  north, in \<open>[0, 360)\<close>, of the vector from a grid point to a point of the source
  (\<open>bearing_of_source_from_point\<close> below).
  The second disjunct of the branch \<^verbatim>\<open>wd > 360 - plume_buffer\<close> is written as in the
  source: \<^verbatim>\<open>angles < wd - 360 - wd\<close>.
\<close>

definition angle_mask :: "real \<Rightarrow> real \<Rightarrow> real \<Rightarrow> bool" where
  "angle_mask ws wd angle =
     (let plume_buffer = angle_width / 2 in
      if ws = 0 then True
      else if wd > (360 - plume_buffer) then
        (angle > wd - plume_buffer) \<or> (angle < wd - 360 - wd)
      else if wd < (0 + plume_buffer) then
        (angle < wd + plume_buffer) \<or> (angle > 360 + wd - plume_buffer)
      else (angle < wd + plume_buffer) \<and> (angle > wd - plume_buffer))"


subsection \<open>Vectors, distances and angles\<close>

text \<open>
  \<^verbatim>\<open>np.arctan2(y, x)\<close>, the angle of the point \<open>(x, y)\<close> in \<open>(-pi, pi]\<close> (0 at the
  origin); Python's \<^verbatim>\<open>%\<close> on floats, whose result has the sign of the divisor; and
  \<^verbatim>\<open>np.rad2deg\<close>.
\<close>

definition arctan2 :: "real \<Rightarrow> real \<Rightarrow> real" where
  "arctan2 y x =
     (if x > 0 then arctan (y / x)
      else if x < 0 \<and> y \<ge> 0 then arctan (y / x) + pi
      else if x < 0 then arctan (y / x) - pi
      else if y > 0 then pi / 2
      else if y < 0 then - (pi / 2)
      else 0)"

definition float_mod :: "real \<Rightarrow> real \<Rightarrow> real" where
  "float_mod a b = a - of_int \<lfloor>a / b\<rfloor> * b"

definition rad2deg :: "real \<Rightarrow> real" where
  "rad2deg r = r * (180 / pi)"

text \<open>
  \<^verbatim>\<open>_angle_from_north(vector)\<close>: \<^verbatim>\<open>north = [0, 1]\<close>,
  \<^verbatim>\<open>angle1 = np.arctan2(*north[::-1])\<close>, \<^verbatim>\<open>angle2 = np.arctan2(*vector[::-1])\<close>,
  \<^verbatim>\<open>np.rad2deg((angle1 - angle2) % (2 * np.pi))\<close>. A vector is the pair \<open>(x, y)\<close>.
\<close>

definition angle_from_north :: "real \<times> real \<Rightarrow> real" where
  "angle_from_north vector =
     (let north = (0, 1);
          angle1 = arctan2 (snd north) (fst north);
          angle2 = arctan2 (snd vector) (fst vector)
      in rad2deg (float_mod (angle1 - angle2) (2 * pi)))"

text \<open>
  One entry of \<^verbatim>\<open>moisture_source_vectors\<close>,
  \<^verbatim>\<open>np.subtract(source_points, points_xy[:, None])\<close>: the point of the source minus the
  grid point, so the vector that leads from the grid point to the source. Its angle from
  north is the bearing of the source as seen from the grid point; the bearing of the grid
  point as seen from the source is the angle of the reversed vector.
\<close>

definition moisture_source_vector :: "real \<times> real \<Rightarrow> real \<times> real \<Rightarrow> real \<times> real" where
  "moisture_source_vector source_point grid_point =
     (fst source_point - fst grid_point, snd source_point - snd grid_point)"

definition bearing_of_source_from_point :: "real \<times> real \<Rightarrow> real \<times> real \<Rightarrow> real" where
  "bearing_of_source_from_point source_point grid_point =
     angle_from_north (moisture_source_vector source_point grid_point)"


text \<open>
  \<^verbatim>\<open>moisture_source_distances[idx]\<close> and \<^verbatim>\<open>moisture_source_angles[idx]\<close> for a source
  with the given points, entry by entry: the norm and the angle from north of the vector,
  one row per grid point.
\<close>

definition source_polar ::
  "(real \<times> real) list \<Rightarrow> (real \<times> real) list \<Rightarrow> (real \<times> real) list list" where
  "source_polar source_points points_xy =
     map (\<lambda>grid_point.
            map (\<lambda>source_point.
                   (let v = moisture_source_vector source_point grid_point
                    in (sqrt ((fst v) ^ 2 + (snd v) ^ 2), angle_from_north v)))
              source_points)
       points_xy"

subsection \<open>Moisture field (\<^verbatim>\<open>moisture_source_matrix_unique\<close>)\<close>

text \<open>
  A moisture source as \<^verbatim>\<open>SpatialComfortResult\<close> sees it: its \<^verbatim>\<open>pathsafe_id\<close>, its
  \<^verbatim>\<open>magnitude\<close>, and \<^verbatim>\<open>moisture_source_vectors[idx]\<close> in polar form. Entry
  \<open>polar s ! p ! k\<close> is the pair (distance, angle from north) of the vector between grid
  point \<open>p\<close> and the \<open>k\<close>-th point of the source: the two arrays
  \<^verbatim>\<open>moisture_source_distances[idx]\<close> (\<^verbatim>\<open>np.linalg.norm\<close>) and
  \<^verbatim>\<open>moisture_source_angles[idx]\<close> (\<^verbatim>\<open>_angle_from_north\<close>) are derived from the same
  vectors and so have the same shape.
\<close>

record moisture_source =
  pathsafe_id :: string
  magnitude :: real
  polar :: "(real \<times> real) list list"

definition moisture_source_distances :: "moisture_source \<Rightarrow> real list list" where
  "moisture_source_distances s = map (map fst) (polar s)"

definition moisture_source_angles :: "moisture_source \<Rightarrow> real list list" where
  "moisture_source_angles s = map (map snd) (polar s)"

text \<open>
  \<^verbatim>\<open>np.where(angle_mask_local, magnitude_matrix_local, 0)\<close>, element-wise on two arrays of
  one shape.
\<close>

definition np_where :: "bool list list \<Rightarrow> real list list \<Rightarrow> real list list" where
  "np_where condition xs = map2 (map2 (\<lambda>b v. if b then v else 0)) condition xs"

text \<open>
  \<^verbatim>\<open>np.amax\<close> of one row: the maximum, and an error for a row of no elements (a
  reduction of a zero-size array that has no identity).
\<close>

fun np_amax :: "real list \<Rightarrow> py_error + real" where
  "np_amax [] = Inl ValueError"
| "np_amax (x # xs) = Inr (fold max xs x)"

text \<open>
  \<^verbatim>\<open>np.amax(..., axis=1)\<close>: the maximum of every row (over the points of the source).
\<close>

fun amax_axis1 :: "real list list \<Rightarrow> py_error + real list" where
  "amax_axis1 [] = Inr []"
| "amax_axis1 (r # rs) =
     (case np_amax r of
        Inl e \<Rightarrow> Inl e
      | Inr v \<Rightarrow> (case amax_axis1 rs of Inl e \<Rightarrow> Inl e | Inr vs \<Rightarrow> Inr (v # vs)))"

text \<open>
  \<^verbatim>\<open>np.amax(moisture_source_matrices, axis=0)\<close>: the element-wise maximum of the
  per-source matrices. An empty list and matrices of different shapes raise.
\<close>

fun amax_axis0 :: "real list list list \<Rightarrow> py_error + real list list" where
  "amax_axis0 [] = Inl ValueError"
| "amax_axis0 [m] = Inr m"
| "amax_axis0 (m # ms) =
     (case amax_axis0 ms of
        Inl e \<Rightarrow> Inl e
      | Inr acc \<Rightarrow>
          if map length m = map length acc then Inr (map2 (map2 max) m acc)
          else Inl ValueError)"

text \<open>
  One pass of the inner loop of \<^verbatim>\<open>moisture_source_matrix_unique\<close>: the row appended to
  \<^verbatim>\<open>moisture_matrix\<close> for the wind state \<open>(ws, wd)\<close>. The branch on \<^verbatim>\<open>ws == 0\<close> of
  the radius is \<open>max_influence_distance\<close>, the angle mask is \<open>angle_mask\<close> on every entry.
\<close>

definition wind_state_row :: "moisture_source \<Rightarrow> real \<Rightarrow> real \<Rightarrow> py_error + real list" where
  "wind_state_row s ws wd =
     (case distribute_array (magnitude s) (moisture_source_distances s)
             (max_influence_distance ws) ''parabolic'' of
        Inl e \<Rightarrow> Inl e
      | Inr magnitude_matrix_local \<Rightarrow>
          (let angle_mask_local = map (map (angle_mask ws wd)) (moisture_source_angles s)
           in amax_axis1 (np_where angle_mask_local magnitude_matrix_local)))"

text \<open>
  The inner loop over \<^verbatim>\<open>wind_speed_direction_unique\<close>; the first pass that raises ends it.
\<close>

fun source_rows :: "moisture_source \<Rightarrow> (real \<times> real) list \<Rightarrow> py_error + real list list" where
  "source_rows s [] = Inr []"
| "source_rows s ((ws, wd) # rest) =
     (case wind_state_row s ws wd of
        Inl e \<Rightarrow> Inl e
      | Inr row \<Rightarrow>
          (case source_rows s rest of Inl e \<Rightarrow> Inl e | Inr rows \<Rightarrow> Inr (row # rows)))"

text \<open>
  The \<^verbatim>\<open>.npy\<close> files of the simulation directory, by file name. The outer loop of
  \<^verbatim>\<open>moisture_source_matrix_unique\<close> loads a source's matrix when its file exists and
  computes and saves it otherwise.
\<close>

type_synonym npy_files = "string \<rightharpoonup> real list list"

fun source_matrices ::
  "npy_files \<Rightarrow> (real \<times> real) list \<Rightarrow> moisture_source list
     \<Rightarrow> py_error + (real list list list \<times> npy_files)" where
  "source_matrices files winds [] = Inr ([], files)"
| "source_matrices files winds (s # rest) =
     (let save_path = pathsafe_id s @ ''.npy'' in
      case files save_path of
        Some moisture_matrix \<Rightarrow>
          (case source_matrices files winds rest of
             Inl e \<Rightarrow> Inl e
           | Inr (ms, files') \<Rightarrow> Inr (moisture_matrix # ms, files'))
      | None \<Rightarrow>
          (case source_rows s winds of
             Inl e \<Rightarrow> Inl e
           | Inr moisture_matrix \<Rightarrow>
               (case source_matrices (files(save_path \<mapsto> moisture_matrix)) winds rest of
                  Inl e \<Rightarrow> Inl e
                | Inr (ms, files') \<Rightarrow> Inr (moisture_matrix # ms, files'))))"

text \<open>
  \<^verbatim>\<open>moisture_source_matrix_unique\<close>: the per-source matrices (one row per unique wind
  state, one column per grid point) reduced by the maximum over sources. The list of unique
  wind states is the second argument.
\<close>

definition moisture_source_matrix_unique ::
  "npy_files \<Rightarrow> (real \<times> real) list \<Rightarrow> moisture_source list
     \<Rightarrow> py_error + (real list list \<times> npy_files)" where
  "moisture_source_matrix_unique files winds sources =
     (case source_matrices files winds sources of
        Inl e \<Rightarrow> Inl e
      | Inr (moisture_source_matrices, files') \<Rightarrow>
          (case amax_axis0 moisture_source_matrices of
             Inl e \<Rightarrow> Inl e
           | Inr m \<Rightarrow> Inr (m, files')))"

text \<open>
  \<^verbatim>\<open>wind_speed_direction\<close> (\<^verbatim>\<open>np.stack\<close> of the two hourly series, which raises when
  their lengths differ),
  \<^verbatim>\<open>wind_speed_direction_unique\<close> (\<^verbatim>\<open>np.unique(..., axis=0)\<close>: the distinct rows in
  lexicographic order) and \<^verbatim>\<open>wind_speed_direction_indices\<close> (for every hour the
  \<^verbatim>\<open>argmax\<close> of the row-wise match, which is the first matching position and 0 when nothing
  matches).
\<close>

definition wind_speed_direction ::
  "real list \<Rightarrow> real list \<Rightarrow> py_error + (real \<times> real) list" where
  "wind_speed_direction wind_speed wind_direction =
     (if length wind_speed = length wind_direction then Inr (zip wind_speed wind_direction)
      else Inl ValueError)"

definition wind_speed_direction_unique ::
  "real list \<Rightarrow> real list \<Rightarrow> py_error + (real \<times> real) list" where
  "wind_speed_direction_unique wind_speed wind_direction =
     (case wind_speed_direction wind_speed wind_direction of
        Inl e \<Rightarrow> Inl e
      | Inr ws_wd \<Rightarrow> Inr (sort (remdups ws_wd)))"

definition argmax_match :: "(real \<times> real) list \<Rightarrow> (real \<times> real) \<Rightarrow> nat" where
  "argmax_match unique ws_wd =
     (if ws_wd \<in> set unique then length (takeWhile (\<lambda>u. u \<noteq> ws_wd) unique) else 0)"

definition wind_speed_direction_indices :: "real list \<Rightarrow> real list \<Rightarrow> py_error + nat list" where
  "wind_speed_direction_indices wind_speed wind_direction =
     (case wind_speed_direction_unique wind_speed wind_direction of
        Inl e \<Rightarrow> Inl e
      | Inr unique \<Rightarrow>
          (case wind_speed_direction wind_speed wind_direction of
             Inl e \<Rightarrow> Inl e
           | Inr ws_wd \<Rightarrow> Inr (map (argmax_match unique) ws_wd)))"

text \<open>
  The value \<^verbatim>\<open>np.where\<close> leaves at one entry (distance, angle): the parabolic decay where
  the angle mask passes, zero elsewhere.
\<close>

definition plume_value :: "moisture_source \<Rightarrow> real \<Rightarrow> real \<Rightarrow> real \<times> real \<Rightarrow> real" where
  "plume_value s ws wd da =
     (if angle_mask ws wd (snd da)
      then (- ((np_interp_unit (fst da) (max_influence_distance ws)) ^ 2) + 1) * magnitude s
      else 0)"

text \<open>
  Indexing a matrix by a list of row indices, \<^verbatim>\<open>matrix[indices]\<close>; an index out of
  range raises.
\<close>

definition take_rows :: "real list list \<Rightarrow> nat list \<Rightarrow> py_error + real list list" where
  "take_rows matrix indices =
     (if \<forall>i \<in> set indices. i < length matrix then Inr (map (\<lambda>i. matrix ! i) indices)
      else Inl IndexError)"

text \<open>
  The values of \<^verbatim>\<open>moisture_matrix\<close> before its cast:
  \<^verbatim>\<open>moisture_source_matrix_unique[wind_speed_direction_indices]\<close>, one row per hour. When
  the wind series differ in length \<^verbatim>\<open>np.stack\<close> raises \<^verbatim>\<open>ValueError\<close> wherever the wind
  states are first read, and no other exception can come before it (an empty list of
  sources and matrices of different shapes raise \<^verbatim>\<open>ValueError\<close> too): the wind states
  are read first here.
\<close>

definition moisture_matrix_values ::
  "npy_files \<Rightarrow> real list \<Rightarrow> real list \<Rightarrow> moisture_source list
     \<Rightarrow> py_error + (real list list \<times> npy_files)" where
  "moisture_matrix_values files wind_speed wind_direction sources =
     (case wind_speed_direction_unique wind_speed wind_direction of
        Inl e \<Rightarrow> Inl e
      | Inr winds \<Rightarrow>
          (case moisture_source_matrix_unique files winds sources of
             Inl e \<Rightarrow> Inl e
           | Inr (unique_matrix, files') \<Rightarrow>
               (case wind_speed_direction_indices wind_speed wind_direction of
                  Inl e \<Rightarrow> Inl e
                | Inr indices \<Rightarrow>
                    (case take_rows unique_matrix indices of
                       Inl e \<Rightarrow> Inl e
                     | Inr m \<Rightarrow> Inr (m, files')))))"

text \<open>
  Two sources, a field and the files it leaves, used to evaluate the model: source \<open>a\<close>
  is a single point, source \<open>b\<close> has two points; four grid points.
\<close>

definition sample_source_a :: moisture_source where
  "sample_source_a =
     \<lparr>pathsafe_id = ''a'', magnitude = 1/2,
      polar = [[(0, 0)], [(5, 90)], [(10, 90)], [(2, 90)]]\<rparr>"

definition sample_source_b :: moisture_source where
  "sample_source_b =
     \<lparr>pathsafe_id = ''b'', magnitude = 1/4,
      polar = [[(1, 0), (2, 10)], [(5, 90), (3, 80)], [(10, 90), (1, 1)], [(2, 90), (2, 91)]]\<rparr>"

definition sample_field :: "real list list" where
  "sample_field = [[1/2, 4/25, 6/25, 21/50], [0, 3/8, 0, 12/25]]"

definition sample_npy :: npy_files where
  "sample_npy =
     [''a.npy'' \<mapsto> [[1/2, 0, 0, 21/50], [0, 3/8, 0, 12/25]],
      ''b.npy'' \<mapsto> [[6/25, 4/25, 6/25, 21/100], [0, 3/16, 0, 6/25]]]"

subsection \<open>MRT interpolation (\<^verbatim>\<open>_interpolate_between_unshaded_shaded\<close>)\<close>

text \<open>
  \<^verbatim>\<open>_interpolate_between_unshaded_shaded(unshaded, shaded, total_irradiance, sky_view,
  sun_up_bool)\<close> for a single analysis grid (\<^verbatim>\<open>_simulation_validity\<close> admits only one
  sky-view result file). A matrix is the list of its rows, one row per hour, as
  \<^verbatim>\<open>DataFrame.values\<close> gives it; an entry is a \<open>cell\<close>.
\<close>

type_synonym cell = "real option"

text \<open>
  \<^verbatim>\<open>interp1d([0, 100], [shaded, unshaded])(sky_view)\<close> at one night hour and one point:
  scipy's linear interpolant \<open>slope * (x_new - x_lo) + y_lo\<close>. The bounds check of
  \<^verbatim>\<open>interp1d\<close> (a sky view outside \<open>[0, 100]\<close> raises) is in
  \<open>interpolate_between_unshaded_shaded\<close> below.
\<close>

definition interp1d_sky_view :: "real \<Rightarrow> real \<Rightarrow> real \<Rightarrow> real" where
  "interp1d_sky_view y_lo y_hi x_new =
     (let x_lo = 0; x_hi = 100; slope = (y_hi - y_lo) / (x_hi - x_lo)
      in slope * (x_new - x_lo) + y_lo)"

definition nighttime_row :: "real \<Rightarrow> real \<Rightarrow> real list \<Rightarrow> cell list" where
  "nighttime_row shaded_h unshaded_h sky_view =
     map (\<lambda>sv. Some (interp1d_sky_view shaded_h unshaded_h sv)) sky_view"

text \<open>
  The division under \<^verbatim>\<open>np.errstate(divide="ignore", invalid="ignore")\<close>. The divisor
  is zero only when all points of the hour have the same irradiance, and then the
  dividend is zero too: \<open>0 / 0\<close> is NaN.
\<close>

definition np_divide :: "real \<Rightarrow> real \<Rightarrow> cell" where
  "np_divide a b = (if b = 0 then None else Some (a / b))"

text \<open>
  One sun-up hour of the \<^verbatim>\<open># DAYTIME\<close> block:
  \<^verbatim>\<open>((old_value - old_min) / (old_max - old_min)) * (new_max - new_min) + new_min\<close>, where
  \<open>old_min\<close> and \<open>old_max\<close> are the smallest and largest irradiance of the hour over the
  points of the grid (\<^verbatim>\<open>irradiance_grp.min()\<close>, \<^verbatim>\<open>.max()\<close> group the columns) and
  \<open>new_min\<close>, \<open>new_max\<close> the smaller and larger of the hour's shaded and unshaded value.
\<close>

definition daytime_row :: "real \<Rightarrow> real \<Rightarrow> real list \<Rightarrow> cell list" where
  "daytime_row shaded_h unshaded_h irradiance =
     (case irradiance of
        [] \<Rightarrow> []
      | first # others \<Rightarrow>
          (let new_min = min shaded_h unshaded_h;
               new_max = max shaded_h unshaded_h;
               old_min = fold min others first;
               old_max = fold max others first
           in map (\<lambda>old_value.
                 map_option (\<lambda>q. q * (new_max - new_min) + new_min)
                   (np_divide (old_value - old_min) (old_max - old_min))) irradiance))"

text \<open>
  \<^verbatim>\<open>DataFrame.interpolate()\<close> on one column (linear, forward): a run of NaN between two
  values is filled along the straight line between them (\<^verbatim>\<open>np.interp\<close> over the row
  positions), NaN after the last value take that value, NaN before the first value stay.
  \<open>interpolate_after a n\<close> reads on after the value \<open>a\<close> and \<open>n\<close> NaN.
\<close>

fun interpolate_after :: "real \<Rightarrow> nat \<Rightarrow> cell list \<Rightarrow> cell list" where
  "interpolate_after a n [] = replicate n (Some a)"
| "interpolate_after a n (None # xs) = interpolate_after a (Suc n) xs"
| "interpolate_after a n (Some b # xs) =
     map (\<lambda>k. Some ((b - a) / real (Suc n) * real k + a)) [1..<Suc n]
       @ Some b # interpolate_after b 0 xs"

fun pd_interpolate :: "cell list \<Rightarrow> cell list" where
  "pd_interpolate [] = []"
| "pd_interpolate (None # xs) = None # pd_interpolate xs"
| "pd_interpolate (Some a # xs) = Some a # interpolate_after a 0 xs"

text \<open>
  \<^verbatim>\<open>.ewm(span=...).mean()\<close> on one column, with pandas' defaults \<^verbatim>\<open>adjust=True\<close>,
  \<^verbatim>\<open>ignore_na=False\<close>: the single pass of pandas' \<^verbatim>\<open>ewm\<close> kernel, which carries the
  running mean \<open>weighted\<close> and the weight \<open>old_wt\<close> of the past.
\<close>

fun ewm_loop :: "real \<Rightarrow> cell \<Rightarrow> real \<Rightarrow> cell list \<Rightarrow> cell list" where
  "ewm_loop old_wt_factor weighted old_wt [] = []"
| "ewm_loop old_wt_factor None old_wt (cur # vals) =
     cur # ewm_loop old_wt_factor cur old_wt vals"
| "ewm_loop old_wt_factor (Some w) old_wt (None # vals) =
     Some w # ewm_loop old_wt_factor (Some w) (old_wt * old_wt_factor) vals"
| "ewm_loop old_wt_factor (Some w) old_wt (Some cur # vals) =
     (let new_wt = 1;
          old_wt' = old_wt * old_wt_factor;
          weighted = (if w \<noteq> cur then (old_wt' * w + new_wt * cur) / (old_wt' + new_wt) else w)
      in Some weighted # ewm_loop old_wt_factor (Some weighted) (old_wt' + new_wt) vals)"

definition ewm_mean :: "real \<Rightarrow> cell list \<Rightarrow> cell list" where
  "ewm_mean ewm_span vals =
     (let com = (ewm_span - 1) / 2;
          alpha = 1 / (1 + com);
          old_wt_factor = 1 - alpha
      in case vals of [] \<Rightarrow> [] | v # rest \<Rightarrow> v # ewm_loop old_wt_factor v 1 rest)"

text \<open>
  The columns of a matrix given by rows (and the rows of one given by columns): the first
  \<open>n\<close> of them.
\<close>

definition columns_of :: "nat \<Rightarrow> 'a list list \<Rightarrow> 'a list list" where
  "columns_of n rows = map (\<lambda>p. map (\<lambda>row. row ! p) rows) [0..<n]"

text \<open>
  The frame \<^verbatim>\<open>pd.concat([nighttime, daytime], axis=0).sort_index()\<close>: for every hour, in
  order, its daytime or its nighttime row.
\<close>

definition pre_smoothing ::
  "real list \<Rightarrow> real list \<Rightarrow> real list list \<Rightarrow> real list \<Rightarrow> bool list \<Rightarrow> cell list list" where
  "pre_smoothing unshaded shaded total_irradiance sky_view sun_up_bool =
     map (\<lambda>(sun_up, shaded_h, unshaded_h, irradiance).
            if sun_up then daytime_row shaded_h unshaded_h irradiance
            else nighttime_row shaded_h unshaded_h sky_view)
       (zip sun_up_bool (zip shaded (zip unshaded total_irradiance)))"

text \<open>
  The whole function. Series of different lengths, a sky view outside \<open>[0, 100]\<close> and a
  number of sky-view points different from the number of irradiance columns raise. The
  result is \<^verbatim>\<open>.interpolate().ewm(span=1.5).mean()\<close>, column by column.
\<close>

definition interpolate_between_unshaded_shaded ::
  "real list \<Rightarrow> real list \<Rightarrow> real list list \<Rightarrow> real list \<Rightarrow> bool list
     \<Rightarrow> py_error + cell list list" where
  "interpolate_between_unshaded_shaded unshaded shaded total_irradiance sky_view sun_up_bool =
     (if length shaded \<noteq> length unshaded then Inl ValueError
      else if length sun_up_bool \<noteq> length shaded then Inl IndexError
      else if length total_irradiance \<noteq> length sun_up_bool then Inl ValueError
      else if \<exists>sv \<in> set sky_view. sv < 0 \<or> sv > 100 then Inl ValueError
      else if \<exists>row \<in> set total_irradiance. length row \<noteq> length sky_view then Inl ValueError
      else
        (let raw = pre_smoothing unshaded shaded total_irradiance sky_view sun_up_bool;
             smoothed = map (\<lambda>column. ewm_mean 1.5 (pd_interpolate column))
                          (columns_of (length sky_view) raw)
         in Inr (columns_of (length sun_up_bool) smoothed)))"

text \<open>
  The closed form of an exponentially weighted mean with decay \<open>f\<close>: the value at \<open>t\<close> is
  \<open>ewm_weighted_sum f ys t / ewm_weight_total f t\<close>.
\<close>

definition ewm_weighted_sum :: "real \<Rightarrow> real list \<Rightarrow> nat \<Rightarrow> real" where
  "ewm_weighted_sum f ys t = (\<Sum>i\<le>t. f ^ (t - i) * ys ! i)"

definition ewm_weight_total :: "real \<Rightarrow> nat \<Rightarrow> real" where
  "ewm_weight_total f t = (\<Sum>i\<le>t. f ^ (t - i))"

subsection \<open>Moisture sources file, matrix accessors\<close>

text \<open>
  Modelled from the spec: \<^verbatim>\<open>MoistureSource.from_json\<close> (module
  \<^verbatim>\<open>external_comfort.moisture\<close>, which is not among the sources). The moisture sources
  are "read from a JSON sidecar file in the simulation directory": the file is opened and
  decoded, and opening a file that is absent raises \<^verbatim>\<open>FileNotFoundError\<close>. The
  decoder is a parameter; the directory's JSON files are a map from file name to text.
\<close>

definition from_json ::
  "(string \<Rightarrow> py_error + moisture_source list) \<Rightarrow> (string \<rightharpoonup> string) \<Rightarrow> string
     \<Rightarrow> py_error + moisture_source list" where
  "from_json decode json_files path =
     (case json_files path of
        None \<Rightarrow> Inl FileNotFoundError
      | Some text \<Rightarrow> decode text)"

text \<open>
  \<^verbatim>\<open>SpatialComfort._load_moisture_sources\<close>: the result, or the exception that leaves
  the method, together with the warnings emitted. Only \<^verbatim>\<open>FileNotFoundError\<close> is caught;
  the \<^verbatim>\<open>ValueError\<close> for an empty list is raised inside the \<^verbatim>\<open>try\<close> and leaves it.
\<close>

definition load_moisture_sources ::
  "(string \<Rightarrow> py_error + moisture_source list) \<Rightarrow> (string \<rightharpoonup> string)
     \<Rightarrow> (py_error + moisture_source list) \<times> string list" where
  "load_moisture_sources decode json_files =
     (let moisture_sources_path = ''moisture_sources.json'' in
      case from_json decode json_files moisture_sources_path of
        Inr moisture_sources \<Rightarrow>
          if length moisture_sources = 0 then (Inl ValueError, [])
          else (Inr moisture_sources, [])
      | Inl e \<Rightarrow>
          if e = FileNotFoundError then
            (Inr [],
             [''No moisture_sources.json found in simulation directory - advanced moisture-impacted UTCI not possible.''])
          else (Inl e, []))"

text \<open>
  The state the accessors of \<^verbatim>\<open>SpatialComfortResult\<close> read and write: the
  \<^verbatim>\<open>.h5\<close> files (a \<open>frame\<close> each, the rows of the stored \<^verbatim>\<open>DataFrame\<close>) and the
  \<^verbatim>\<open>.npy\<close> files of the simulation directory, by file name. An entry of a frame is a
  \<open>number\<close>: a finite value, NaN, or an infinity, which a cast to \<^verbatim>\<open>float16\<close> can
  produce.
\<close>

datatype number = Num real | NaN | PosInf | NegInf

type_synonym frame = "number list list"

definition number_of_cell :: "cell \<Rightarrow> number" where
  "number_of_cell c = (case c of None \<Rightarrow> NaN | Some v \<Rightarrow> Num v)"

record disk =
  h5 :: "string \<rightharpoonup> frame"
  npy :: npy_files

text \<open>
  What a \<^verbatim>\<open>SpatialComfortResult\<close> computes from: the moisture sources, the hourly series
  of the weather file, the mean radiant temperature of the unshaded and the shaded
  typology, and the irradiance and sky-view tables of the grid (the values of the
  accessors \<^verbatim>\<open>total_irradiance_matrix\<close> and \<^verbatim>\<open>sky_view\<close>, whose own loading is not
  modelled).
\<close>

record spatial_comfort =
  moisture_sources :: "moisture_source list"
  epw_dry_bulb_temperature :: "real list"
  epw_relative_humidity :: "real list"
  epw_wind_speed :: "real list"
  epw_wind_direction :: "real list"
  epw_atmospheric_station_pressure :: "real list"
  epw_global_horizontal_radiation :: "real list"
  unshaded_mean_radiant_temperature :: "real list"
  shaded_mean_radiant_temperature :: "real list"
  total_irradiance_matrix :: "real list list"
  sky_view_table :: "real list"

text \<open>
  Two functions of other modules: \<^verbatim>\<open>v_utci\<close> (the vectorised
  \<^verbatim>\<open>ladybug_comfort.utci.universal_thermal_climate_index\<close>), on one entry, and the
  \<^verbatim>\<open>evaporative_cooling_effect\<close> that \<^verbatim>\<open>spatial.py\<close> imports from
  \<^verbatim>\<open>external_comfort.moisture\<close>, on one hour (dry bulb, humidity, the row of the
  moisture matrix, pressure), giving the hour's rows of temperature and humidity.
\<close>

record externals =
  v_utci :: "number \<Rightarrow> number \<Rightarrow> number \<Rightarrow> number \<Rightarrow> number"
  moisture_evaporative_cooling_effect ::
    "real \<Rightarrow> real \<Rightarrow> number list \<Rightarrow> real \<Rightarrow> py_error + (number list \<times> number list)"

text \<open>
  \<^verbatim>\<open>.astype(np.float16)\<close> on one entry: IEEE 754 half precision, round to nearest, ties
  to even. A finite value \<open>x\<close> with \<open>2^e \<le> \<bar>x\<bar> < 2^(e+1)\<close>, \<open>-14 \<le> e \<le> 15\<close>, is
  rounded to a multiple of \<open>2^(e-10)\<close>, a smaller one to a multiple of \<open>2^-24\<close>, and a
  result of magnitude \<open>2^16\<close> or more is infinite. \<open>float16_binade 29 \<bar>x\<bar>\<close> is \<open>e + 14\<close>
  (0 below \<open>2^-13\<close>, 29 from \<open>2^15\<close> on).
\<close>

definition round_half_even :: "real \<Rightarrow> int" where
  "round_half_even y =
     (let f = \<lfloor>y\<rfloor> in
      if y - of_int f < 1/2 then f
      else if y - of_int f > 1/2 then f + 1
      else if even f then f else f + 1)"

fun float16_binade :: "nat \<Rightarrow> real \<Rightarrow> nat" where
  "float16_binade 0 a = 0"
| "float16_binade (Suc k) a = (if 2 ^ Suc k / 2 ^ 14 \<le> a then Suc k else float16_binade k a)"

definition float16_round :: "real \<Rightarrow> number" where
  "float16_round x =
     (let ulp = 2 ^ float16_binade 29 \<bar>x\<bar> / 2 ^ 24;
          r = of_int (round_half_even (x / ulp)) * ulp
      in if r \<ge> 2 ^ 16 then PosInf else if r \<le> - (2 ^ 16) then NegInf else Num r)"

fun astype_float16 :: "number \<Rightarrow> number" where
  "astype_float16 (Num x) = float16_round x"
| "astype_float16 v = v"

text \<open>
  \<^verbatim>\<open>df.to_hdf(path, ...)\<close>.
\<close>

definition write_h5 :: "disk \<Rightarrow> string \<Rightarrow> frame \<Rightarrow> disk" where
  "write_h5 d path df = d\<lparr>h5 := (h5 d)(path \<mapsto> df)\<rparr>"

text \<open>
  The accessors, each on its first access (a \<^verbatim>\<open>cached_property\<close> keeps the value for
  later ones), as functions from the disk to the returned value and the new disk. A
  value an accessor reads more than once is read once here.
\<close>

definition mean_radiant_temperature_matrix ::
  "spatial_comfort \<Rightarrow> disk \<Rightarrow> py_error + (frame \<times> disk)" where
  "mean_radiant_temperature_matrix sc d =
     (let mrt_path = ''mean_radiant_temperature_matrix.h5'' in
      case h5 d mrt_path of
        Some df \<Rightarrow> Inr (df, d)
      | None \<Rightarrow>
          (case interpolate_between_unshaded_shaded
                  (unshaded_mean_radiant_temperature sc) (shaded_mean_radiant_temperature sc)
                  (total_irradiance_matrix sc) (sky_view_table sc)
                  (map (\<lambda>g. g > 0) (epw_global_horizontal_radiation sc)) of
             Inl e \<Rightarrow> Inl e
           | Inr interpolated \<Rightarrow>
               (let mrt = map (map (astype_float16 \<circ> number_of_cell)) interpolated
                in Inr (mrt, write_h5 d mrt_path mrt))))"

text \<open>
  \<^verbatim>\<open>np.repeat([series], [len(mrt.values.T)], axis=0).T\<close> wrapped in a \<^verbatim>\<open>DataFrame\<close>
  with the index and columns of the MRT matrix: every column is the series; a series of
  another length than the index raises.
\<close>

definition n_columns :: "frame \<Rightarrow> nat" where
  "n_columns df = (case df of [] \<Rightarrow> 0 | row # _ \<Rightarrow> length row)"

definition repeat_series :: "real list \<Rightarrow> frame \<Rightarrow> py_error + frame" where
  "repeat_series series mrt =
     (if length series = length mrt
      then Inr (map (\<lambda>v. replicate (n_columns mrt) (Num v)) series)
      else Inl ValueError)"

text \<open>
  \<^verbatim>\<open>moisture_matrix\<close>: the hourly moisture values under the index and columns of the MRT
  matrix, cast to \<^verbatim>\<open>float16\<close>.
\<close>

definition moisture_matrix ::
  "spatial_comfort \<Rightarrow> disk \<Rightarrow> py_error + (frame \<times> disk)" where
  "moisture_matrix sc d =
     (case moisture_matrix_values (npy d) (epw_wind_speed sc) (epw_wind_direction sc)
             (moisture_sources sc) of
        Inl e \<Rightarrow> Inl e
      | Inr (m, files) \<Rightarrow>
          (case mean_radiant_temperature_matrix sc (d\<lparr>npy := files\<rparr>) of
             Inl e \<Rightarrow> Inl e
           | Inr (mrt, d') \<Rightarrow>
               if map length m = map length mrt
               then Inr (map (map (astype_float16 \<circ> Num)) m, d')
               else Inl ValueError))"

text \<open>
  The loop of \<^verbatim>\<open>spatial_moisture_properties\<close> over the hours.
\<close>

fun evaporative_rows ::
  "externals \<Rightarrow> (real \<times> real \<times> number list \<times> real) list
     \<Rightarrow> py_error + (number list \<times> number list) list" where
  "evaporative_rows ext [] = Inr []"
| "evaporative_rows ext ((dbt, rh, ms, atm) # rest) =
     (case moisture_evaporative_cooling_effect ext dbt rh ms atm of
        Inl e \<Rightarrow> Inl e
      | Inr r \<Rightarrow>
          (case evaporative_rows ext rest of Inl e \<Rightarrow> Inl e | Inr rs \<Rightarrow> Inr (r # rs)))"

definition spatial_moisture_properties ::
  "externals \<Rightarrow> spatial_comfort \<Rightarrow> disk \<Rightarrow> py_error + ((frame \<times> frame) \<times> disk)" where
  "spatial_moisture_properties ext sc d =
     (let dbt_save_path = ''dry_bulb_temperature_matrix.h5'';
          rh_save_path = ''relative_humidity_matrix.h5'';
          save = (\<lambda>dbt rh d'. Inr ((dbt, rh), write_h5 (write_h5 d' dbt_save_path dbt) rh_save_path rh))
      in case (h5 d dbt_save_path, h5 d rh_save_path) of
        (Some dbt, Some rh) \<Rightarrow> Inr ((dbt, rh), d)
      | _ \<Rightarrow>
          if length (moisture_sources sc) = 0 then
            (case mean_radiant_temperature_matrix sc d of
               Inl e \<Rightarrow> Inl e
             | Inr (mrt, d') \<Rightarrow>
                 (case repeat_series (epw_dry_bulb_temperature sc) mrt of
                    Inl e \<Rightarrow> Inl e
                  | Inr dbt \<Rightarrow>
                      (case repeat_series (epw_relative_humidity sc) mrt of
                         Inl e \<Rightarrow> Inl e
                       | Inr rh \<Rightarrow> save dbt rh d')))
          else
            (case moisture_matrix sc d of
               Inl e \<Rightarrow> Inl e
             | Inr (mm, d') \<Rightarrow>
                 (case evaporative_rows ext
                         (zip (epw_dry_bulb_temperature sc)
                            (zip (epw_relative_humidity sc)
                               (zip mm (epw_atmospheric_station_pressure sc)))) of
                    Inl e \<Rightarrow> Inl e
                  | Inr temp \<Rightarrow>
                      if temp = [] \<or> map (length \<circ> fst) temp \<noteq> map length mm
                           \<or> map (length \<circ> snd) temp \<noteq> map length mm
                      then Inl ValueError
                      else save (map fst temp) (map snd temp) d')))"

definition dry_bulb_temperature_matrix ::
  "externals \<Rightarrow> spatial_comfort \<Rightarrow> disk \<Rightarrow> py_error + (frame option \<times> disk)" where
  "dry_bulb_temperature_matrix ext sc d =
     (let save_path = ''dry_bulb_temperature_matrix.h5'' in
      case h5 d save_path of
        Some df \<Rightarrow> Inr (Some df, d)
      | None \<Rightarrow>
          if length (moisture_sources sc) = 0 then
            (case mean_radiant_temperature_matrix sc d of
               Inl e \<Rightarrow> Inl e
             | Inr (mrt, d') \<Rightarrow>
                 (case repeat_series (epw_dry_bulb_temperature sc) mrt of
                    Inl e \<Rightarrow> Inl e
                  | Inr dbt \<Rightarrow> Inr (None, write_h5 d' save_path dbt)))
          else
            (case spatial_moisture_properties ext sc d of
               Inl e \<Rightarrow> Inl e
             | Inr ((dbt, rh), d') \<Rightarrow> Inr (Some dbt, d')))"

definition relative_humidity_matrix ::
  "externals \<Rightarrow> spatial_comfort \<Rightarrow> disk \<Rightarrow> py_error + (frame option \<times> disk)" where
  "relative_humidity_matrix ext sc d =
     (let save_path = ''relative_humidity_matrix.h5'' in
      case h5 d save_path of
        Some df \<Rightarrow> Inr (Some df, d)
      | None \<Rightarrow>
          if length (moisture_sources sc) = 0 then
            (case mean_radiant_temperature_matrix sc d of
               Inl e \<Rightarrow> Inl e
             | Inr (mrt, d') \<Rightarrow>
                 (case repeat_series (epw_relative_humidity sc) mrt of
                    Inl e \<Rightarrow> Inl e
                  | Inr rh \<Rightarrow> Inr (None, write_h5 d' save_path rh)))
          else
            (case spatial_moisture_properties ext sc d of
               Inl e \<Rightarrow> Inl e
             | Inr ((dbt, rh), d') \<Rightarrow> Inr (Some rh, d')))"

definition wind_speed_matrix ::
  "spatial_comfort \<Rightarrow> disk \<Rightarrow> py_error + (frame \<times> disk)" where
  "wind_speed_matrix sc d =
     (let save_path = ''wind_speed_matrix.h5'' in
      case mean_radiant_temperature_matrix sc d of
        Inl e \<Rightarrow> Inl e
      | Inr (mrt, d') \<Rightarrow>
          (case repeat_series (epw_wind_speed sc) mrt of
             Inl e \<Rightarrow> Inl e
           | Inr ws \<Rightarrow> Inr (ws, write_h5 d' save_path ws)))"

text \<open>
  \<^verbatim>\<open>.values\<close> of what an accessor returned: \<^verbatim>\<open>None\<close> has no such attribute.
\<close>

definition values_of :: "frame option \<Rightarrow> py_error + frame" where
  "values_of df = (case df of None \<Rightarrow> Inl AttributeError | Some m \<Rightarrow> Inr m)"

text \<open>
  The loop of \<^verbatim>\<open>universal_thermal_climate_index_matrix\<close>: \<^verbatim>\<open>v_utci(dbt, mrt, ws, rh)\<close> on
  the rows of the four matrices, entry by entry.
\<close>

definition utci_rows :: "externals \<Rightarrow> frame \<Rightarrow> frame \<Rightarrow> frame \<Rightarrow> frame \<Rightarrow> frame" where
  "utci_rows ext dbt mrt ws rh =
     map (\<lambda>(dbt_row, mrt_row, ws_row, rh_row).
            map (\<lambda>(ta, tr, vel, rhv). v_utci ext ta tr vel rhv)
              (zip dbt_row (zip mrt_row (zip ws_row rh_row))))
       (zip dbt (zip mrt (zip ws rh)))"

definition universal_thermal_climate_index_matrix ::
  "externals \<Rightarrow> spatial_comfort \<Rightarrow> disk \<Rightarrow> py_error + (frame \<times> disk)" where
  "universal_thermal_climate_index_matrix ext sc d =
     (let save_path = ''universal_thermal_climate_index_matrix.h5'' in
      case h5 d save_path of
        Some df \<Rightarrow> Inr (df, d)
      | None \<Rightarrow>
          (case dry_bulb_temperature_matrix ext sc d of
             Inl e \<Rightarrow> Inl e
           | Inr (dbt_df, d1) \<Rightarrow>
          (case values_of dbt_df of
             Inl e \<Rightarrow> Inl e
           | Inr dbt \<Rightarrow>
          (case mean_radiant_temperature_matrix sc d1 of
             Inl e \<Rightarrow> Inl e
           | Inr (mrt, d2) \<Rightarrow>
          (case wind_speed_matrix sc d2 of
             Inl e \<Rightarrow> Inl e
           | Inr (ws, d3) \<Rightarrow>
          (case relative_humidity_matrix ext sc d3 of
             Inl e \<Rightarrow> Inl e
           | Inr (rh_df, d4) \<Rightarrow>
          (case values_of rh_df of
             Inl e \<Rightarrow> Inl e
           | Inr rh \<Rightarrow>
               (let utcis = utci_rows ext dbt mrt ws rh in
                if map length utcis = map length mrt
                then (let utci = map (map astype_float16) utcis
                      in Inr (utci, write_h5 d4 save_path utci))
                else Inl ValueError))))))))"

text \<open>
  A small case for evaluation: two hours (the sun up in the first), three grid points, no
  moisture sources; the same case in calm air with one moisture source of magnitude 0.16
  at the origin and the grid points at 0, 5 and 10 units west of it; an empty simulation
  directory; the MRT matrix of the case; and a frame that differs from anything the case
  computes.
\<close>

definition sample_comfort :: spatial_comfort where
  "sample_comfort =
     \<lparr>moisture_sources = [],
      epw_dry_bulb_temperature = [25, 15],
      epw_relative_humidity = [40, 70],
      epw_wind_speed = [3, 1],
      epw_wind_direction = [90, 180],
      epw_atmospheric_station_pressure = [101325, 101325],
      epw_global_horizontal_radiation = [100, 0],
      unshaded_mean_radiant_temperature = [40, 40],
      shaded_mean_radiant_temperature = [20, 20],
      total_irradiance_matrix = [[0, 50, 100], [0, 0, 0]],
      sky_view_table = [0, 50, 100]\<rparr>"

definition sample_source_c :: moisture_source where
  "sample_source_c =
     \<lparr>pathsafe_id = ''c'', magnitude = 4/25,
      polar = [[(0, 90)], [(5, 90)], [(10, 90)]]\<rparr>"

definition sample_calm_comfort :: spatial_comfort where
  "sample_calm_comfort =
     sample_comfort\<lparr>moisture_sources := [sample_source_c], epw_wind_speed := [0, 0]\<rparr>"

definition empty_disk :: disk where
  "empty_disk = \<lparr>h5 = Map.empty, npy = Map.empty\<rparr>"

definition sample_mrt :: frame where
  "sample_mrt = [[Num 20, Num 30, Num 40], [Num 20, Num 30, Num 40]]"

definition stale_frame :: frame where
  "stale_frame = [[Num 0, Num 0, Num 0], [Num 0, Num 0, Num 0]]"

text \<open>
  A decoder for evaluation: it knows the empty list only.
\<close>

definition sample_decode :: "string \<Rightarrow> py_error + moisture_source list" where
  "sample_decode text = (if text = ''[]'' then Inr [] else Inl ValueError)"

section \<open>Properties\<close>

subsection \<open>Evaporative cooling\<close>

text \<open>
  C3 (as amended). For every dry-bulb temperature, relative humidity, pressure and
  effectiveness \<open>e\<close>, \<open>evaporative_cooling_effect\<close> returns
  \<open>(DBT - e * (DBT - WBT), RH * (1 - e) + 100 * e)\<close> unless that humidity exceeds 100, in
  which case it returns \<open>(WBT, 100)\<close>. At \<open>e = 1\<close> the result is \<open>(WBT, 100)\<close>. At \<open>e = 0\<close>
  the inputs come back unchanged provided the input humidity is at most 100.
\<close>

theorem evaporative_cooling_effect_cases:
  fixes wb :: "real \<Rightarrow> real \<Rightarrow> real \<Rightarrow> real"
  defines "P \<equiv> (\<lambda>p. case p of None \<Rightarrow> 101325 | Some q \<Rightarrow> q)"
  shows "(rh * (1 - e) + 100 * e \<le> 100 \<longrightarrow>
            evaporative_cooling_effect wb dbt rh e p
              = (dbt - e * (dbt - wb dbt rh (P p)), rh * (1 - e) + 100 * e))
       \<and> (rh * (1 - e) + 100 * e > 100 \<longrightarrow>
            evaporative_cooling_effect wb dbt rh e p = (wb dbt rh (P p), 100))
       \<and> evaporative_cooling_effect wb dbt rh 1 p = (wb dbt rh (P p), 100)
       \<and> (rh \<le> 100 \<longrightarrow> evaporative_cooling_effect wb dbt rh 0 p = (dbt, rh))"
  by (simp add: evaporative_cooling_effect_def P_def Let_def algebra_simps)

theorem evaporative_cooling_effect_cases_witness:
  "(50::real) * (1 - 1/2) + 100 * (1/2) \<le> 100
   \<and> evaporative_cooling_effect sample_wet_bulb 30 50 (1/2) None = (25, 75)
   \<and> (50::real) * (1 - 2) + 100 * 2 > 100
   \<and> evaporative_cooling_effect sample_wet_bulb 30 50 2 None = (20, 100)
   \<and> evaporative_cooling_effect sample_wet_bulb 30 50 1 None = (20, 100)
   \<and> (50::real) \<le> 100
   \<and> evaporative_cooling_effect sample_wet_bulb 30 50 0 None = (30, 50)"
  using evaporative_cooling_effect_cases [of 50 "1/2" sample_wet_bulb 30 None]
    evaporative_cooling_effect_cases [of 50 2 sample_wet_bulb 30 None]
    evaporative_cooling_effect_cases [of 50 0 sample_wet_bulb 30 None]
  by (simp add: sample_wet_bulb_def)

text \<open>
  The claim as written fails at \<open>e = 0\<close> for a humidity above 100 (weather files allow
  up to 110): the saturation branch replaces both inputs.
\<close>

theorem evaporative_cooling_effect_zero_counterexample:
  "evaporative_cooling_effect sample_wet_bulb 30 105 0 None = (31, 100)
   \<and> evaporative_cooling_effect sample_wet_bulb 30 105 0 None \<noteq> (30, 105)"
  by (simp add: evaporative_cooling_effect_def sample_wet_bulb_def)

subsection \<open>Radial decay\<close>

lemma np_interp_unit_range: "0 \<le> np_interp_unit x m \<and> np_interp_unit x m \<le> 1"
  by (auto simp: np_interp_unit_def divide_le_eq_1)

lemma np_interp_unit_mono:
  assumes "0 < m" "x \<le> y"
  shows "np_interp_unit x m \<le> np_interp_unit y m"
  using assms by (auto simp: np_interp_unit_def divide_le_eq_1 divide_right_mono)

lemma np_interp_unit_zero: "0 < m \<Longrightarrow> np_interp_unit 0 m = 0"
  by (simp add: np_interp_unit_def)

lemma np_interp_unit_beyond: "0 < m \<Longrightarrow> m \<le> x \<Longrightarrow> np_interp_unit x m = 1"
  by (simp add: np_interp_unit_def)

lemma max_influence_distance_pos: "0 \<le> ws \<Longrightarrow> 0 < max_influence_distance ws"
  by (simp add: max_influence_distance_def distance_around_sources_in_calm_wind_def
      wind_speed_multiplier_for_distances_def)

lemma curve_parabolic: "curve ''parabolic'' = Some (\<lambda>distance. - (distance ^ 2) + 1)"
  by (simp add: curve_def)

text \<open>
  C5. For a wind speed \<open>ws \<ge> 0\<close> and a magnitude \<open>\<ge> 0\<close>, the parabolic
  \<open>distribute\<close> at the radius used by \<open>moisture_source_matrix_unique\<close> always returns
  a value, which is non-increasing in the distance over distances \<open>\<ge> 0\<close>, equals the
  magnitude at distance 0 and is 0 at every distance at or beyond the radius; the radius
  is 5 at wind speed 0 and ten times the wind speed otherwise.
\<close>

theorem distribute_parabolic_decay:
  assumes "0 \<le> ws" and "0 \<le> mag"
  shows "\<exists>f. (\<forall>d. distribute mag d (max_influence_distance ws) ''parabolic'' = Inr (f d))
     \<and> (\<forall>d1 d2. 0 \<le> d1 \<and> d1 \<le> d2 \<longrightarrow> f d2 \<le> f d1)
     \<and> f 0 = mag
     \<and> (\<forall>d. max_influence_distance ws \<le> d \<longrightarrow> f d = 0)
     \<and> max_influence_distance ws = (if ws = 0 then 5 else ws * 10)"
proof -
  define M where "M = max_influence_distance ws"
  define f where "f = (\<lambda>d. (- ((np_interp_unit d M) ^ 2) + 1) * mag)"
  have Mpos: "0 < M" using assms(1) by (simp add: M_def max_influence_distance_pos)
  have eval: "\<forall>d. distribute mag d M ''parabolic'' = Inr (f d)"
    by (simp add: distribute_def curve_parabolic f_def)
  have mono: "f d2 \<le> f d1" if "0 \<le> d1" "d1 \<le> d2" for d1 d2
  proof -
    have le: "np_interp_unit d1 M \<le> np_interp_unit d2 M"
      using Mpos that(2) by (rule np_interp_unit_mono)
    have nn: "0 \<le> np_interp_unit d1 M" using np_interp_unit_range by blast
    have "(np_interp_unit d1 M) ^ 2 \<le> (np_interp_unit d2 M) ^ 2"
      using le nn by (rule power_mono)
    then have "- ((np_interp_unit d2 M) ^ 2) + 1 \<le> - ((np_interp_unit d1 M) ^ 2) + 1"
      by simp
    then show ?thesis
      unfolding f_def using assms(2) by (rule mult_right_mono)
  qed
  have at0: "f 0 = mag"
    using Mpos by (simp add: f_def np_interp_unit_zero)
  have far: "f d = 0" if "M \<le> d" for d
    using that Mpos by (simp add: f_def np_interp_unit_beyond)
  have rad: "M = (if ws = 0 then 5 else ws * 10)"
    by (simp add: M_def max_influence_distance_def distance_around_sources_in_calm_wind_def
        wind_speed_multiplier_for_distances_def)
  show ?thesis
    using eval mono at0 far rad unfolding M_def [symmetric] by blast
qed

theorem distribute_parabolic_decay_witness:
  "(0::real) \<le> 0 \<and> (0::real) \<le> 1/2
   \<and> distribute (1/2) 0 (max_influence_distance 0) ''parabolic'' = Inr (1/2)
   \<and> distribute (1/2) 5 (max_influence_distance 0) ''parabolic'' = Inr 0
   \<and> distribute (1/2) 10 (max_influence_distance 0) ''parabolic'' = Inr 0
   \<and> max_influence_distance 0 = 5"
proof -
  have "0 \<le> (0::real)" and "0 \<le> (1/2::real)" by simp_all
  from distribute_parabolic_decay [OF this]
  obtain f where f: "\<forall>d. distribute (1/2) d (max_influence_distance 0) ''parabolic'' = Inr (f d)"
    "f 0 = 1/2" "\<forall>d. max_influence_distance 0 \<le> d \<longrightarrow> f d = 0"
    "max_influence_distance 0 = (if (0::real) = 0 then 5 else 0 * 10)"
    by blast
  have m: "max_influence_distance 0 = 5" using f(4) by simp
  have "f 5 = 0" "f 10 = 0" using f(3) m by simp_all
  then show ?thesis using f(1) f(2) m by simp
qed

subsection \<open>Angular mask\<close>



lemma source_polar_angle:
  assumes "p < length points_xy" "k < length source_points"
  shows "moisture_source_angles (s\<lparr>polar := source_polar source_points points_xy\<rparr>) ! p ! k
           = bearing_of_source_from_point (source_points ! k) (points_xy ! p)"
  using assms
  by (simp add: moisture_source_angles_def source_polar_def bearing_of_source_from_point_def
      Let_def)






subsection \<open>Moisture field\<close>

lemma amax_axis1_Inr:
  "amax_axis1 rows = Inr vs \<Longrightarrow>
     length vs = length rows \<and> (\<forall>p < length rows. rows ! p \<noteq> [] \<and> vs ! p = Max (set (rows ! p)))"
proof (induction rows arbitrary: vs)
  case Nil
  then show ?case by simp
next
  case (Cons r rs)
  from Cons.prems obtain x xs where r: "r = x # xs"
    by (cases r) auto
  from Cons.prems r obtain vs' where vs': "amax_axis1 rs = Inr vs'" "vs = fold max xs x # vs'"
    by (auto split: sum.splits)
  have hd: "fold max xs x = Max (set r)"
    by (simp only: r Max.set_eq_fold)
  from Cons.IH [OF vs'(1)] have IH: "length vs' = length rs"
    "\<forall>p < length rs. rs ! p \<noteq> [] \<and> vs' ! p = Max (set (rs ! p))" by simp_all
  show ?case
  proof (intro conjI allI impI)
    show "length vs = length (r # rs)" using vs'(2) IH(1) by simp
  next
    fix p assume "p < length (r # rs)"
    then show "(r # rs) ! p \<noteq> []" using r IH(2) by (cases p) auto
  next
    fix p assume "p < length (r # rs)"
    then show "vs ! p = Max (set ((r # rs) ! p))"
      using vs'(2) hd IH(2) by (cases p) auto
  qed
qed

lemma map2_map_map: "map2 g (map f1 xs) (map f2 xs) = map (\<lambda>x. g (f1 x) (f2 x)) xs"
  by (induction xs) auto

lemma np_where_polar:
  "np_where (map (map c) (moisture_source_angles s)) (map (map f) (moisture_source_distances s))
   = map (map (\<lambda>da. if c (snd da) then f (fst da) else 0)) (polar s)"
  by (simp add: np_where_def moisture_source_angles_def moisture_source_distances_def
      map2_map_map)

lemma wind_state_row_eq:
  "wind_state_row s ws wd = amax_axis1 (map (map (plume_value s ws wd)) (polar s))"
proof -
  have c: "curve ''parabolic'' = Some (\<lambda>distance. - (distance ^ 2) + 1)"
    by (simp add: curve_def)
  show ?thesis
    unfolding wind_state_row_def distribute_array_def c option.case sum.case Let_def
      np_where_polar plume_value_def [abs_def]
    by (rule refl)
qed

lemma wind_state_row_Inr:
  assumes "wind_state_row s ws wd = Inr row"
  shows "length row = length (polar s)"
    and "p < length (polar s) \<Longrightarrow> polar s ! p \<noteq> []"
    and "p < length (polar s) \<Longrightarrow> row ! p = Max (plume_value s ws wd ` set (polar s ! p))"
  using amax_axis1_Inr [OF assms [unfolded wind_state_row_eq]] by auto

lemma source_rows_Inr:
  "source_rows s winds = Inr m \<Longrightarrow>
     length m = length winds \<and>
     (\<forall>w < length winds. wind_state_row s (fst (winds ! w)) (snd (winds ! w)) = Inr (m ! w))"
proof (induction winds arbitrary: m)
  case Nil
  then show ?case by simp
next
  case (Cons wsd rest)
  obtain ws wd where wsd: "wsd = (ws, wd)" by (cases wsd)
  from Cons.prems wsd obtain row rows where
    row: "wind_state_row s ws wd = Inr row" and rows: "source_rows s rest = Inr rows"
    and m: "m = row # rows"
    by (auto split: sum.splits)
  from Cons.IH [OF rows] have IH: "length rows = length rest"
    "\<forall>w < length rest. wind_state_row s (fst (rest ! w)) (snd (rest ! w)) = Inr (rows ! w)"
    by simp_all
  show ?case
  proof (intro conjI allI impI)
    show "length m = length (wsd # rest)" using m IH(1) by simp
  next
    fix w assume "w < length (wsd # rest)"
    then show "wind_state_row s (fst ((wsd # rest) ! w)) (snd ((wsd # rest) ! w)) = Inr (m ! w)"
      using m row wsd IH(2) by (cases w) auto
  qed
qed

lemma source_matrices_computed:
  "source_matrices files winds sources = Inr (ms, files') \<Longrightarrow>
   \<forall>s \<in> set sources. files (pathsafe_id s @ ''.npy'') = None \<Longrightarrow>
   distinct (map pathsafe_id sources) \<Longrightarrow>
   list_all2 (\<lambda>s m. source_rows s winds = Inr m) sources ms"
proof (induction sources arbitrary: files ms)
  case Nil
  then show ?case by simp
next
  case (Cons s rest)
  from Cons.prems(2) have none: "files (pathsafe_id s @ ''.npy'') = None" by simp
  from Cons.prems(1) none obtain m ms' where
    m: "source_rows s winds = Inr m"
    and rec: "source_matrices (files(pathsafe_id s @ ''.npy'' \<mapsto> m)) winds rest = Inr (ms', files')"
    and ms: "ms = m # ms'"
    by (auto simp: Let_def split: sum.splits)
  have "\<forall>t \<in> set rest. (files(pathsafe_id s @ ''.npy'' \<mapsto> m)) (pathsafe_id t @ ''.npy'') = None"
    using Cons.prems(2,3) by (auto simp: image_iff)
  moreover have "distinct (map pathsafe_id rest)" using Cons.prems(3) by simp
  ultimately have "list_all2 (\<lambda>s m. source_rows s winds = Inr m) rest ms'"
    using Cons.IH [OF rec] by blast
  then show ?case using m ms by simp
qed

lemma amax_axis0_Inr:
  "amax_axis0 ms = Inr field \<Longrightarrow>
     ms \<noteq> [] \<and> (\<forall>m \<in> set ms. map length m = map length field) \<and>
     (\<forall>w < length field. \<forall>p < length (field ! w).
        field ! w ! p = Max ((\<lambda>m. m ! w ! p) ` set ms))"
proof (induction ms arbitrary: field rule: amax_axis0.induct)
  case 1
  then show ?case by simp
next
  case (2 m)
  then show ?case by simp
next
  case (3 m m' ms)
  from "3.prems" obtain acc where acc: "amax_axis0 (m' # ms) = Inr acc"
    and shape: "map length m = map length acc"
    and field: "field = map2 (map2 max) m acc"
    by (auto split: sum.splits if_splits)
  from "3.IH" [OF acc] have IH:
    "\<forall>x \<in> set (m' # ms). map length x = map length acc"
    "\<forall>w < length acc. \<forall>p < length (acc ! w). acc ! w ! p = Max ((\<lambda>x. x ! w ! p) ` set (m' # ms))"
    by simp_all
  have len: "length m = length acc" using shape by (metis length_map)
  have rowlen: "length (m ! w) = length (acc ! w)" if "w < length acc" for w
    using shape that len by (metis nth_map)
  have fshape: "map length field = map length acc"
    using len rowlen by (auto simp: field list_eq_iff_nth_eq)
  have entry: "field ! w ! p = max (m ! w ! p) (acc ! w ! p)"
    if "w < length acc" "p < length (acc ! w)" for w p
    using that len rowlen [OF that(1)] by (simp add: field)
  show ?case
  proof (intro conjI ballI allI impI)
    show "m # m' # ms \<noteq> []" by simp
  next
    fix x assume "x \<in> set (m # m' # ms)"
    then show "map length x = map length field"
      using IH(1) shape fshape by auto
  next
    fix w p assume w: "w < length field" and p: "p < length (field ! w)"
    have w': "w < length acc" using w fshape by (metis length_map)
    have p': "p < length (acc ! w)" using p fshape w' w by (metis nth_map)
    have "field ! w ! p = max (m ! w ! p) (Max ((\<lambda>x. x ! w ! p) ` set (m' # ms)))"
      using entry [OF w' p'] IH(2) w' p' by simp
    also have "\<dots> = Max ((\<lambda>x. x ! w ! p) ` set (m # m' # ms))"
      by simp
    finally show "field ! w ! p = Max ((\<lambda>x. x ! w ! p) ` set (m # m' # ms))" .
  qed
qed

lemma moisture_field_structure:
  assumes res: "moisture_source_matrix_unique files winds sources = Inr (field, files')"
    and nocache: "\<forall>s \<in> set sources. files (pathsafe_id s @ ''.npy'') = None"
    and dist: "distinct (map pathsafe_id sources)"
  shows "sources \<noteq> []"
    and "length field = length winds"
    and "\<And>s w. s \<in> set sources \<Longrightarrow> w < length winds \<Longrightarrow>
           \<exists>row. wind_state_row s (fst (winds ! w)) (snd (winds ! w)) = Inr row
             \<and> length row = length (field ! w)"
    and "\<And>w p. w < length winds \<Longrightarrow> p < length (field ! w) \<Longrightarrow>
           field ! w ! p =
             Max ((\<lambda>s. Max (plume_value s (fst (winds ! w)) (snd (winds ! w)) ` set (polar s ! p)))
                    ` set sources)"
proof -
  from res obtain ms where sm: "source_matrices files winds sources = Inr (ms, files')"
    and am: "amax_axis0 ms = Inr field"
    by (auto simp: moisture_source_matrix_unique_def split: sum.splits)
  have rel: "list_all2 (\<lambda>s m. source_rows s winds = Inr m) sources ms"
    using source_matrices_computed [OF sm nocache dist] .
  have len: "length sources = length ms" using rel by (rule list_all2_lengthD)
  have relnth: "source_rows (sources ! i) winds = Inr (ms ! i)" if "i < length sources" for i
    using rel that by (simp add: list_all2_conv_all_nth)
  note A = amax_axis0_Inr [OF am]
  from A have ne: "ms \<noteq> []" by simp
  from A have shape: "\<And>m. m \<in> set ms \<Longrightarrow> map length m = map length field" by simp
  from A have entry: "\<And>w p. w < length field \<Longrightarrow> p < length (field ! w) \<Longrightarrow>
      field ! w ! p = Max ((\<lambda>m. m ! w ! p) ` set ms)" by simp
  show srcne: "sources \<noteq> []" using ne len by auto
  have mlen: "length (ms ! i) = length field" if "i < length ms" for i
    using shape [of "ms ! i"] that by (metis length_map nth_mem)
  have mrow: "length (ms ! i ! w) = length (field ! w)" if "i < length ms" "w < length field" for i w
    using shape [of "ms ! i"] that mlen [OF that(1)] by (metis nth_map nth_mem)
  have "length (ms ! 0) = length winds"
    using source_rows_Inr [OF relnth [of 0]] srcne by simp
  then show flen: "length field = length winds"
    using mlen [of 0] ne by simp
  have rowat: "wind_state_row (sources ! i) (fst (winds ! w)) (snd (winds ! w)) = Inr (ms ! i ! w)"
    if "i < length sources" "w < length winds" for i w
    using source_rows_Inr [OF relnth [OF that(1)]] that(2) by simp
  {
    fix s w assume s: "s \<in> set sources" and w: "w < length winds"
    from s obtain i where i: "i < length sources" "s = sources ! i"
      by (auto simp: in_set_conv_nth)
    have "wind_state_row s (fst (winds ! w)) (snd (winds ! w)) = Inr (ms ! i ! w)"
      using rowat [OF i(1) w] i(2) by simp
    moreover have "length (ms ! i ! w) = length (field ! w)"
      using mrow [of i w] i(1) len w flen by simp
    ultimately show "\<exists>row. wind_state_row s (fst (winds ! w)) (snd (winds ! w)) = Inr row
             \<and> length row = length (field ! w)" by blast
  }
  {
    fix w p assume w: "w < length winds" and p: "p < length (field ! w)"
    let ?g = "\<lambda>s. Max (plume_value s (fst (winds ! w)) (snd (winds ! w)) ` set (polar s ! p))"
    have "map (\<lambda>m. m ! w ! p) ms = map ?g sources"
    proof (rule nth_equalityI)
      show "length (map (\<lambda>m. m ! w ! p) ms) = length (map ?g sources)" using len by simp
    next
      fix i assume "i < length (map (\<lambda>m. m ! w ! p) ms)"
      then have i: "i < length sources" using len by simp
      have row: "wind_state_row (sources ! i) (fst (winds ! w)) (snd (winds ! w)) = Inr (ms ! i ! w)"
        using rowat [OF i w] .
      have "length (ms ! i ! w) = length (field ! w)"
        using mrow [of i w] i len w flen by simp
      then have "p < length (polar (sources ! i))"
        using wind_state_row_Inr(1) [OF row] p by simp
      then have "ms ! i ! w ! p = ?g (sources ! i)"
        using wind_state_row_Inr(3) [OF row] by simp
      then show "map (\<lambda>m. m ! w ! p) ms ! i = map ?g sources ! i"
        using i len by simp
    qed
    then have "(\<lambda>m. m ! w ! p) ` set ms = ?g ` set sources"
      by (metis set_map)
    then show "field ! w ! p = Max (?g ` set sources)"
      using entry [of w p] w p flen by simp
  }
qed

lemma plume_value_bounds:
  "min 0 (magnitude s) \<le> plume_value s ws wd da \<and> plume_value s ws wd da \<le> max 0 (magnitude s)"
proof -
  let ?x = "np_interp_unit (fst da) (max_influence_distance ws)"
  have x: "0 \<le> ?x" "?x \<le> 1" using np_interp_unit_range by blast+
  have "?x ^ 2 \<le> 1" using x by (simp add: power_le_one)
  then have k: "0 \<le> - (?x ^ 2) + 1" "- (?x ^ 2) + 1 \<le> 1" by simp_all
  show ?thesis
  proof (cases "0 \<le> magnitude s")
    case True
    have "0 \<le> (- (?x ^ 2) + 1) * magnitude s" using k(1) True by (rule mult_nonneg_nonneg)
    moreover have "(- (?x ^ 2) + 1) * magnitude s \<le> 1 * magnitude s"
      using k(2) True by (rule mult_right_mono)
    ultimately show ?thesis using True by (simp add: plume_value_def)
  next
    case False
    then have neg: "magnitude s \<le> 0" by simp
    have "(- (?x ^ 2) + 1) * magnitude s \<le> 0" using k(1) neg by (rule mult_nonneg_nonpos)
    moreover have "1 * magnitude s \<le> (- (?x ^ 2) + 1) * magnitude s"
      using k(2) neg by (rule mult_right_mono_neg)
    ultimately show ?thesis using neg by (simp add: plume_value_def)
  qed
qed

lemma moisture_field_entry_bounds:
  assumes res: "moisture_source_matrix_unique files winds sources = Inr (field, files')"
    and nocache: "\<forall>s \<in> set sources. files (pathsafe_id s @ ''.npy'') = None"
    and dist: "distinct (map pathsafe_id sources)"
    and M: "0 \<le> Max (magnitude ` set sources)"
    and row: "row \<in> set field" and v: "v \<in> set row"
  shows "0 \<le> v \<and> v \<le> Max (magnitude ` set sources)"
proof -
  note S = moisture_field_structure [OF res nocache dist]
  from row obtain w where w: "w < length field" "row = field ! w" by (auto simp: in_set_conv_nth)
  from v obtain p where p: "p < length row" "v = row ! p" by (auto simp: in_set_conv_nth)
  have w': "w < length winds" using w(1) S(2) by simp
  let ?ws = "fst (winds ! w)" and ?wd = "snd (winds ! w)"
  let ?g = "\<lambda>s. Max (plume_value s ?ws ?wd ` set (polar s ! p))"
  have veq: "v = Max (?g ` set sources)"
    using S(4) [OF w', of p] p w(2) by simp
  have fin: "finite (?g ` set sources)" "?g ` set sources \<noteq> {}" using S(1) by simp_all
  have ne: "polar s ! p \<noteq> []" if "s \<in> set sources" for s
  proof -
    from S(3) [OF that w'] obtain r where r: "wind_state_row s ?ws ?wd = Inr r"
      "length r = length (field ! w)" by blast
    have "p < length (polar s)" using wind_state_row_Inr(1) [OF r(1)] r(2) p(1) w(2) by simp
    then show ?thesis using wind_state_row_Inr(2) [OF r(1)] by simp
  qed
  have up: "?g s \<le> Max (magnitude ` set sources)" if "s \<in> set sources" for s
  proof -
    have "magnitude s \<le> Max (magnitude ` set sources)" using that by simp
    then have "plume_value s ?ws ?wd da \<le> Max (magnitude ` set sources)" for da
      using plume_value_bounds [of s ?ws ?wd da] M by linarith
    then show ?thesis using ne [OF that] by (simp add: Max_le_iff)
  qed
  have "Max (magnitude ` set sources) \<in> magnitude ` set sources"
    using S(1) by (intro Max_in) simp_all
  then obtain t where t: "t \<in> set sources" "magnitude t = Max (magnitude ` set sources)" by auto
  have "0 \<le> ?g t"
  proof -
    obtain da where da: "da \<in> set (polar t ! p)" using ne [OF t(1)] by (cases "polar t ! p") auto
    have "0 \<le> plume_value t ?ws ?wd da" using plume_value_bounds [of t ?ws ?wd da] t(2) M by simp
    also have "\<dots> \<le> ?g t" using da by (intro Max_ge) simp_all
    finally show ?thesis .
  qed
  also have "?g t \<le> Max (?g ` set sources)" using t(1) by (intro Max_ge) simp_all
  finally have "0 \<le> v" using veq by simp
  moreover have "v \<le> Max (magnitude ` set sources)"
    unfolding veq using fin up by (simp add: Max_le_iff)
  ultimately show ?thesis by simp
qed

lemma take_rows_set: "take_rows matrix indices = Inr m \<Longrightarrow> set m \<subseteq> set matrix"
  by (auto simp: take_rows_def split: if_splits)

lemmas moisture_eval =
  wind_speed_direction_unique_def wind_speed_direction_def wind_state_row_def
  distribute_array_def curve_def moisture_source_distances_def moisture_source_angles_def
  np_where_def angle_mask_def np_interp_unit_def max_influence_distance_def
  distance_around_sources_in_calm_wind_def wind_speed_multiplier_for_distances_def
  angle_width_def power2_eq_square wind_speed_direction_indices_def argmax_match_def
  moisture_source_matrix_unique_def take_rows_def moisture_matrix_values_def
  sample_source_a_def sample_source_b_def sample_field_def sample_npy_def

lemma sample_field_eval:
  "moisture_source_matrix_unique Map.empty [(0, 0), (1, 90)] [sample_source_a, sample_source_b]
     = Inr (sample_field, sample_npy)"
  by (simp add: moisture_eval)

lemma sample_unique_eval:
  "wind_speed_direction_unique [0, 1, 0] [0, 90, 0] = Inr [(0, 0), (1, 90)]"
  by (simp add: moisture_eval)

lemma sample_matrix_eval:
  "moisture_matrix_values Map.empty [0, 1, 0] [0, 90, 0] [sample_source_a, sample_source_b]
     = Inr ([[1/2, 4/25, 6/25, 21/50], [0, 3/8, 0, 12/25], [1/2, 4/25, 6/25, 21/50]], sample_npy)"
  by (simp add: moisture_matrix_values_def sample_unique_eval sample_field_eval take_rows_def
      wind_speed_direction_indices_def argmax_match_def wind_speed_direction_def
      sample_field_def)

text \<open>
  C6. When no per-source file is loaded (none exists, the identifiers differ), for every
  wind state \<open>(ws, wd)\<close> and grid point \<open>p\<close>: each source's row holds at \<open>p\<close> the maximum,
  over the points of the source, of the radial decay value where the angle mask passes and
  zero where it does not (for a single-point source: that value itself); and the combined
  field holds at \<open>p\<close> the maximum of the sources' values, which is the value of one of the
  sources, not their sum.
\<close>

theorem moisture_field_pointwise_max:
  assumes "moisture_source_matrix_unique files winds sources = Inr (field, files')"
    and "\<forall>s \<in> set sources. files (pathsafe_id s @ ''.npy'') = None"
    and "distinct (map pathsafe_id sources)"
    and "w < length winds" and "p < length (field ! w)" and "winds ! w = (ws, wd)"
  shows "(\<forall>s \<in> set sources. \<exists>row. wind_state_row s ws wd = Inr row \<and> p < length row
            \<and> row ! p = Max (plume_value s ws wd ` set (polar s ! p))
            \<and> (\<forall>d a. polar s ! p = [(d, a)] \<longrightarrow>
                  (if angle_mask ws wd a
                   then distribute (magnitude s) d (max_influence_distance ws) ''parabolic''
                          = Inr (row ! p)
                   else row ! p = 0)))
       \<and> field ! w ! p = Max ((\<lambda>s. Max (plume_value s ws wd ` set (polar s ! p))) ` set sources)
       \<and> (\<exists>s \<in> set sources. field ! w ! p = Max (plume_value s ws wd ` set (polar s ! p)))"
proof -
  note S = moisture_field_structure [OF assms(1-3)]
  have wsd: "fst (winds ! w) = ws" "snd (winds ! w) = wd" using assms(6) by simp_all
  let ?g = "\<lambda>s. Max (plume_value s ws wd ` set (polar s ! p))"
  have one: "\<exists>row. wind_state_row s ws wd = Inr row \<and> p < length row
            \<and> row ! p = ?g s
            \<and> (\<forall>d a. polar s ! p = [(d, a)] \<longrightarrow>
                  (if angle_mask ws wd a
                   then distribute (magnitude s) d (max_influence_distance ws) ''parabolic''
                          = Inr (row ! p)
                   else row ! p = 0))" if s: "s \<in> set sources" for s
  proof -
    from S(3) [OF s assms(4)] wsd obtain row where row: "wind_state_row s ws wd = Inr row"
      "length row = length (field ! w)" by auto
    have p: "p < length (polar s)" using wind_state_row_Inr(1) [OF row(1)] row(2) assms(5) by simp
    have v: "row ! p = ?g s" using wind_state_row_Inr(3) [OF row(1) p] .
    have single: "if angle_mask ws wd a
        then distribute (magnitude s) d (max_influence_distance ws) ''parabolic'' = Inr (row ! p)
        else row ! p = 0" if "polar s ! p = [(d, a)]" for d a
      using that v by (simp add: plume_value_def distribute_def curve_def)
    have "p < length row" using row(2) assms(5) by simp
    then show ?thesis using row(1) v single by blast
  qed
  have all: "field ! w ! p = Max (?g ` set sources)"
    using S(4) [OF assms(4,5)] wsd by simp
  have "Max (?g ` set sources) \<in> ?g ` set sources"
    using S(1) by (intro Max_in) simp_all
  then have ex: "\<exists>s \<in> set sources. field ! w ! p = ?g s" using all by auto
  show ?thesis using one all ex by blast
qed

theorem moisture_field_pointwise_max_witness:
  "moisture_source_matrix_unique Map.empty [(0, 0), (1, 90)] [sample_source_a, sample_source_b]
     = Inr (sample_field, sample_npy)
   \<and> wind_state_row sample_source_a 1 90 = Inr [0, 3/8, 0, 12/25]
   \<and> wind_state_row sample_source_b 1 90 = Inr [0, 3/16, 0, 6/25]
   \<and> sample_field ! 1 ! 3
        = Max ((\<lambda>s. Max (plume_value s 1 90 ` set (polar s ! 3)))
                 ` set [sample_source_a, sample_source_b])
   \<and> sample_field ! 1 ! 3 = 12/25
   \<and> sample_field ! 1 ! 3 \<noteq> 12/25 + 6/25"
proof -
  have "\<forall>s \<in> set [sample_source_a, sample_source_b]. Map.empty (pathsafe_id s @ ''.npy'') = None"
    by simp
  moreover have "distinct (map pathsafe_id [sample_source_a, sample_source_b])"
    by (simp add: sample_source_a_def sample_source_b_def)
  moreover have "1 < length [(0::real, 0::real), (1, 90)]" by simp
  moreover have "3 < length (sample_field ! 1)" by (simp add: sample_field_def)
  moreover have "[(0::real, 0::real), (1, 90)] ! 1 = (1, 90)" by simp
  ultimately have "sample_field ! 1 ! 3
        = Max ((\<lambda>s. Max (plume_value s 1 90 ` set (polar s ! 3)))
                 ` set [sample_source_a, sample_source_b])"
    using moisture_field_pointwise_max [OF sample_field_eval] by blast
  moreover have "wind_state_row sample_source_a 1 90 = Inr [0, 3/8, 0, 12/25]"
    by (simp add: moisture_eval)
  moreover have "wind_state_row sample_source_b 1 90 = Inr [0, 3/16, 0, 6/25]"
    by (simp add: moisture_eval)
  moreover have "sample_field ! 1 ! 3 = 12/25" by (simp add: sample_field_def)
  ultimately show ?thesis using sample_field_eval by simp
qed

subsection \<open>MRT interpolation\<close>

lemma ewm_loop_length: "length (ewm_loop f w ow xs) = length xs"
  by (induction f w ow xs rule: ewm_loop.induct) (simp_all add: Let_def)

lemma ewm_loop_prefix:
  "t < length xs \<Longrightarrow> ewm_loop f w ow (xs @ rest) ! t = ewm_loop f w ow xs ! t"
proof (induction f w ow xs arbitrary: t rule: ewm_loop.induct)
  case (1 f w ow)
  then show ?case by simp
next
  case (2 f ow cur vals)
  then show ?case by (cases t) simp_all
next
  case (3 f w ow vals)
  then show ?case by (cases t) simp_all
next
  case (4 f w ow cur vals)
  then show ?case by (cases t) (simp_all add: Let_def)
qed

lemma ewm_mean_length: "length (ewm_mean s xs) = length xs"
  by (cases xs) (simp_all add: ewm_mean_def ewm_loop_length)

lemma ewm_mean_prefix:
  "t < length xs \<Longrightarrow> ewm_mean s (xs @ rest) ! t = ewm_mean s xs ! t"
  by (cases xs; cases t) (simp_all add: ewm_mean_def ewm_loop_prefix)

lemma ewm_step_value:
  fixes N D f c :: real
  assumes "0 < D" "0 \<le> f"
  shows "(if N / D \<noteq> c then (D * f * (N / D) + 1 * c) / (D * f + 1) else N / D)
           = (f * N + c) / (f * D + 1)"
proof -
  have pos: "0 < f * D + 1" using assms by (simp add: add_nonneg_pos)
  show ?thesis
  proof (cases "N / D = c")
    case True
    then have "N = c * D" using assms(1) by (simp add: field_simps)
    then have "(f * N + c) / (f * D + 1) = c * (f * D + 1) / (f * D + 1)"
      by (simp add: algebra_simps)
    also have "\<dots> = c" using pos by simp
    finally show ?thesis using True by simp
  next
    case False
    have "D * f * (N / D) = f * N" using assms(1) by simp
    then show ?thesis using False by (simp add: mult.commute)
  qed
qed

lemma ewm_loop_closed:
  fixes N D f :: real
  assumes "0 < D" "0 \<le> f" "t < length ys"
  shows "ewm_loop f (Some (N / D)) D (map Some ys) ! t
           = Some ((f ^ Suc t * N + ewm_weighted_sum f ys t) / (f ^ Suc t * D + ewm_weight_total f t))"
  using assms
proof (induction ys arbitrary: N D t)
  case Nil
  then show ?case by simp
next
  case (Cons c rest)
  let ?N = "f * N + c" and ?D = "f * D + 1"
  have Dpos: "0 < ?D" using Cons.prems(1,2) by (simp add: add_nonneg_pos)
  have step: "ewm_loop f (Some (N / D)) D (map Some (c # rest))
      = Some (?N / ?D) # ewm_loop f (Some (?N / ?D)) ?D (map Some rest)"
    using ewm_step_value [OF Cons.prems(1,2), of N c] by (simp add: Let_def mult.commute)
  show ?case
  proof (cases t)
    case 0
    then show ?thesis
      unfolding step by (simp add: ewm_weighted_sum_def ewm_weight_total_def)
  next
    case (Suc t')
    then have t': "t' < length rest" using Cons.prems(3) by simp
    have ws: "ewm_weighted_sum f (c # rest) (Suc t') = f ^ Suc t' * c + ewm_weighted_sum f rest t'"
      unfolding ewm_weighted_sum_def by (subst sum.atMost_Suc_shift) simp
    have wt: "ewm_weight_total f (Suc t') = f ^ Suc t' + ewm_weight_total f t'"
      unfolding ewm_weight_total_def by (subst sum.atMost_Suc_shift) simp
    have "ewm_loop f (Some (N / D)) D (map Some (c # rest)) ! t
        = ewm_loop f (Some (?N / ?D)) ?D (map Some rest) ! t'"
      unfolding step using Suc by simp
    also have "\<dots> = Some ((f ^ Suc t' * ?N + ewm_weighted_sum f rest t')
                         / (f ^ Suc t' * ?D + ewm_weight_total f t'))"
      using Cons.IH [OF Dpos Cons.prems(2) t'] .
    also have "f ^ Suc t' * ?N + ewm_weighted_sum f rest t'
        = f ^ Suc t * N + ewm_weighted_sum f (c # rest) t"
      using Suc ws by (simp add: algebra_simps)
    also have "f ^ Suc t' * ?D + ewm_weight_total f t' = f ^ Suc t * D + ewm_weight_total f t"
      using Suc wt by (simp add: algebra_simps)
    finally show ?thesis .
  qed
qed

lemma ewm_mean_closed:
  assumes "1 \<le> s" "t < length ys"
  shows "ewm_mean s (map Some ys) ! t
           = Some (ewm_weighted_sum (1 - 1 / (1 + (s - 1) / 2)) ys t
                   / ewm_weight_total (1 - 1 / (1 + (s - 1) / 2)) t)"
proof -
  let ?f = "1 - 1 / (1 + (s - 1) / 2)"
  have f: "0 \<le> ?f" using assms(1) by (simp add: field_simps)
  obtain y rest where ys: "ys = y # rest" using assms(2) by (cases ys) auto
  show ?thesis
  proof (cases t)
    case 0
    then show ?thesis
      by (simp add: ys ewm_mean_def ewm_weighted_sum_def ewm_weight_total_def)
  next
    case (Suc t')
    then have t': "t' < length rest" using assms(2) ys by simp
    have ws: "ewm_weighted_sum ?f (y # rest) (Suc t') = ?f ^ Suc t' * y + ewm_weighted_sum ?f rest t'"
      unfolding ewm_weighted_sum_def by (subst sum.atMost_Suc_shift) simp
    have wt: "ewm_weight_total ?f (Suc t') = ?f ^ Suc t' + ewm_weight_total ?f t'"
      unfolding ewm_weight_total_def by (subst sum.atMost_Suc_shift) simp
    have "ewm_mean s (map Some ys) ! t = ewm_loop ?f (Some (y / 1)) 1 (map Some rest) ! t'"
      using Suc by (simp add: ys ewm_mean_def Let_def)
    also have "\<dots> = Some ((?f ^ Suc t' * y + ewm_weighted_sum ?f rest t')
                         / (?f ^ Suc t' * 1 + ewm_weight_total ?f t'))"
      using ewm_loop_closed [OF _ f t', of 1 y] by simp
    finally show ?thesis using Suc ws wt ys by simp
  qed
qed

lemma ewm_weight_total_pos: "0 \<le> f \<Longrightarrow> 0 < ewm_weight_total f t"
proof -
  assume f: "0 \<le> f"
  have "ewm_weight_total f t = (\<Sum>i<t. f ^ (t - i)) + f ^ (t - t)"
    unfolding ewm_weight_total_def by (simp add: lessThan_Suc_atMost [symmetric])
  moreover have "0 \<le> (\<Sum>i<t. f ^ (t - i))" using f by (intro sum_nonneg) simp
  ultimately show ?thesis by simp
qed

lemma ewm_constant:
  assumes "0 \<le> f" "\<forall>i \<le> t. ys ! i = c"
  shows "ewm_weighted_sum f ys t / ewm_weight_total f t = c"
proof -
  have "ewm_weighted_sum f ys t = (\<Sum>i\<le>t. f ^ (t - i) * c)"
    unfolding ewm_weighted_sum_def using assms(2) by (intro sum.cong) simp_all
  also have "\<dots> = ewm_weight_total f t * c"
    unfolding ewm_weight_total_def by (simp add: sum_distrib_right)
  finally show ?thesis using ewm_weight_total_pos [OF assms(1), of t] by simp
qed

lemma interpolate_after_valid:
  "interpolate_after a 0 (map Some ys @ rest) = map Some ys @ interpolate_after (last (a # ys)) 0 rest"
  by (induction ys arbitrary: a) simp_all

lemma pd_interpolate_valid_prefix:
  "\<exists>tail. pd_interpolate (map Some ys @ rest) = map Some ys @ tail"
proof (cases ys)
  case Nil
  then show ?thesis by simp
next
  case (Cons y ys')
  then show ?thesis by (simp add: interpolate_after_valid)
qed

lemma smoothed_prefix_closed:
  assumes "1 \<le> s" "take n column = map Some ys" "t < n" "n \<le> length column"
  shows "ewm_mean s (pd_interpolate column) ! t
           = Some (ewm_weighted_sum (1 - 1 / (1 + (s - 1) / 2)) ys t
                   / ewm_weight_total (1 - 1 / (1 + (s - 1) / 2)) t)"
proof -
  have len: "length ys = n" using assms(2,4) by (metis length_map length_take min.absorb2)
  have "column = map Some ys @ drop n column" using assms(2) by (metis append_take_drop_id)
  then obtain tail where "pd_interpolate column = map Some ys @ tail"
    using pd_interpolate_valid_prefix [of ys "drop n column"] by auto
  then have "ewm_mean s (pd_interpolate column) ! t = ewm_mean s (map Some ys) ! t"
    using ewm_mean_prefix [of t "map Some ys" s tail] assms(3) len by simp
  then show ?thesis using ewm_mean_closed [OF assms(1), of t ys] assms(3) len by simp
qed

lemma interpolate_after_length: "length (interpolate_after a n xs) = n + length xs"
  by (induction a n xs rule: interpolate_after.induct) simp_all

lemma pd_interpolate_length: "length (pd_interpolate xs) = length xs"
  by (induction xs rule: pd_interpolate.induct) (simp_all add: interpolate_after_length)

lemma pre_smoothing_length:
  assumes "length shaded = length unshaded" "length sun_up_bool = length shaded"
    "length total_irradiance = length sun_up_bool"
  shows "length (pre_smoothing unshaded shaded total_irradiance sky_view sun_up_bool)
           = length sun_up_bool"
  using assms by (simp add: pre_smoothing_def)

lemma pre_smoothing_nth:
  assumes "length shaded = length unshaded" "length sun_up_bool = length shaded"
    "length total_irradiance = length sun_up_bool" "h < length sun_up_bool"
  shows "pre_smoothing unshaded shaded total_irradiance sky_view sun_up_bool ! h
           = (if sun_up_bool ! h then daytime_row (shaded ! h) (unshaded ! h) (total_irradiance ! h)
              else nighttime_row (shaded ! h) (unshaded ! h) sky_view)"
  using assms by (simp add: pre_smoothing_def)

lemma interpolate_result:
  assumes "interpolate_between_unshaded_shaded unshaded shaded total_irradiance sky_view sun_up_bool
             = Inr frame"
  shows "length shaded = length unshaded" and "length sun_up_bool = length shaded"
    and "length total_irradiance = length sun_up_bool"
    and "\<forall>sv \<in> set sky_view. 0 \<le> sv \<and> sv \<le> 100"
    and "length frame = length sun_up_bool"
    and "\<And>p. p < length sky_view \<Longrightarrow> map (\<lambda>row. row ! p) frame
           = ewm_mean 1.5 (pd_interpolate (map (\<lambda>row. row ! p)
               (pre_smoothing unshaded shaded total_irradiance sky_view sun_up_bool)))"
proof -
  let ?raw = "pre_smoothing unshaded shaded total_irradiance sky_view sun_up_bool"
  let ?sm = "map (\<lambda>column. ewm_mean 1.5 (pd_interpolate column)) (columns_of (length sky_view) ?raw)"
  from assms show l1: "length shaded = length unshaded"
    by (simp add: interpolate_between_unshaded_shaded_def split: if_splits)
  from assms show l2: "length sun_up_bool = length shaded"
    by (simp add: interpolate_between_unshaded_shaded_def split: if_splits)
  from assms show l3: "length total_irradiance = length sun_up_bool"
    by (simp add: interpolate_between_unshaded_shaded_def split: if_splits)
  from assms show "\<forall>sv \<in> set sky_view. 0 \<le> sv \<and> sv \<le> 100"
    by (simp add: interpolate_between_unshaded_shaded_def split: if_splits) force
  from assms have frame: "frame = columns_of (length sun_up_bool) ?sm"
    by (simp add: interpolate_between_unshaded_shaded_def Let_def split: if_splits)
  show "length frame = length sun_up_bool" by (simp add: frame columns_of_def)
  fix p assume p: "p < length sky_view"
  have col: "?sm ! p = ewm_mean 1.5 (pd_interpolate (map (\<lambda>row. row ! p) ?raw))"
    using p by (simp add: columns_of_def)
  have len: "length (?sm ! p) = length sun_up_bool"
    unfolding col by (simp add: ewm_mean_length pd_interpolate_length pre_smoothing_length [OF l1 l2 l3])
  have "map (\<lambda>row. row ! p) frame = map (\<lambda>h. ?sm ! p ! h) [0..<length sun_up_bool]"
    using p by (simp add: frame columns_of_def)
  also have "\<dots> = ?sm ! p" by (metis len map_nth)
  finally show "map (\<lambda>row. row ! p) frame
           = ewm_mean 1.5 (pd_interpolate (map (\<lambda>row. row ! p) ?raw))"
    using col by simp
qed

lemma interpolate_entry_closed:
  assumes res: "interpolate_between_unshaded_shaded unshaded shaded total_irradiance sky_view sun_up_bool
             = Inr frame"
    and h: "h < length sun_up_bool" and p: "p < length sky_view"
    and valid: "\<forall>i \<le> h. pre_smoothing unshaded shaded total_irradiance sky_view sun_up_bool ! i ! p
                   = Some (ys ! i)"
    and ys: "length ys = Suc h"
  shows "frame ! h ! p = Some (ewm_weighted_sum (1/5) ys h / ewm_weight_total (1/5) h)"
proof -
  let ?raw = "pre_smoothing unshaded shaded total_irradiance sky_view sun_up_bool"
  let ?col = "map (\<lambda>row. row ! p) ?raw"
  note R = interpolate_result [OF res]
  have rawlen: "length ?raw = length sun_up_bool" using pre_smoothing_length [OF R(1-3)] .
  have tk: "take (Suc h) ?col = map Some ys"
  proof (rule nth_equalityI)
    show "length (take (Suc h) ?col) = length (map Some ys)" using ys h rawlen by simp
  next
    fix i assume "i < length (take (Suc h) ?col)"
    then have i: "i \<le> h" "i < length ?raw" using h rawlen by simp_all
    then show "take (Suc h) ?col ! i = map Some ys ! i" using valid ys by simp
  qed
  have "map (\<lambda>row. row ! p) frame ! h = ewm_mean 1.5 (pd_interpolate ?col) ! h"
    using R(6) [OF p] by simp
  then have "frame ! h ! p = ewm_mean 1.5 (pd_interpolate ?col) ! h"
    using h R(5) by simp
  also have "\<dots> = Some (ewm_weighted_sum (1 - 1 / (1 + (1.5 - 1) / 2)) ys h
                   / ewm_weight_total (1 - 1 / (1 + (1.5 - 1) / 2)) h)"
    using smoothed_prefix_closed [of "1.5" "Suc h" ?col ys h] tk h rawlen by simp
  also have "(1 - 1 / (1 + (1.5 - 1) / 2)) = (1/5 :: real)" by simp
  finally show ?thesis .
qed

text \<open>
  C1 (as amended). When the function returns, for every sun-down hour \<open>h\<close> and grid
  point \<open>p\<close> the value interpolated before smoothing is the linear blend
  \<open>shaded h + (unshaded h - shaded h) * sky_view p / 100\<close>: the shaded value at 0, the
  unshaded value at 100, and between the smaller and the larger of the two. The returned
  entry, which is smoothed over the earlier hours, equals the blend when the point's
  values before smoothing at all hours up to \<open>h\<close> equal it (so always at hour 0).
\<close>

theorem nighttime_blend_before_smoothing:
  assumes "interpolate_between_unshaded_shaded unshaded shaded total_irradiance sky_view sun_up_bool
             = Inr frame"
    and "h < length sun_up_bool" and "\<not> sun_up_bool ! h" and "p < length sky_view"
  shows "pre_smoothing unshaded shaded total_irradiance sky_view sun_up_bool ! h ! p
           = Some (shaded ! h + (unshaded ! h - shaded ! h) * (sky_view ! p / 100))
       \<and> min (shaded ! h) (unshaded ! h)
           \<le> shaded ! h + (unshaded ! h - shaded ! h) * (sky_view ! p / 100)
       \<and> shaded ! h + (unshaded ! h - shaded ! h) * (sky_view ! p / 100)
           \<le> max (shaded ! h) (unshaded ! h)
       \<and> (sky_view ! p = 0 \<longrightarrow>
            pre_smoothing unshaded shaded total_irradiance sky_view sun_up_bool ! h ! p
              = Some (shaded ! h))
       \<and> (sky_view ! p = 100 \<longrightarrow>
            pre_smoothing unshaded shaded total_irradiance sky_view sun_up_bool ! h ! p
              = Some (unshaded ! h))
       \<and> ((\<forall>i \<le> h. pre_smoothing unshaded shaded total_irradiance sky_view sun_up_bool ! i ! p
                      = Some (shaded ! h + (unshaded ! h - shaded ! h) * (sky_view ! p / 100)))
            \<longrightarrow> frame ! h ! p
                  = Some (shaded ! h + (unshaded ! h - shaded ! h) * (sky_view ! p / 100)))"
proof -
  let ?raw = "pre_smoothing unshaded shaded total_irradiance sky_view sun_up_bool"
  let ?b = "shaded ! h + (unshaded ! h - shaded ! h) * (sky_view ! p / 100)"
  note R = interpolate_result [OF assms(1)]
  have sv: "0 \<le> sky_view ! p" "sky_view ! p \<le> 100" using R(4) assms(4) by simp_all
  have raw: "?raw ! h ! p = Some ?b"
    using pre_smoothing_nth [OF R(1-3) assms(2)] assms(3,4)
    by (simp add: nighttime_row_def interp1d_sky_view_def)
  define u where "u = sky_view ! p / 100"
  have u: "0 \<le> u" "u \<le> 1" using sv by (simp_all add: u_def)
  have b: "?b = (1 - u) * shaded ! h + u * unshaded ! h" by (simp add: u_def field_simps)
  have lo: "min (shaded ! h) (unshaded ! h) \<le> ?b"
  proof -
    have "(1 - u) * min (shaded ! h) (unshaded ! h) \<le> (1 - u) * shaded ! h"
      using u by (intro mult_left_mono) simp_all
    moreover have "u * min (shaded ! h) (unshaded ! h) \<le> u * unshaded ! h"
      using u by (intro mult_left_mono) simp_all
    ultimately have "(1 - u) * min (shaded ! h) (unshaded ! h) + u * min (shaded ! h) (unshaded ! h)
        \<le> ?b" unfolding b by (rule add_mono)
    then show ?thesis by (simp add: algebra_simps)
  qed
  have hi: "?b \<le> max (shaded ! h) (unshaded ! h)"
  proof -
    have "(1 - u) * shaded ! h \<le> (1 - u) * max (shaded ! h) (unshaded ! h)"
      using u by (intro mult_left_mono) simp_all
    moreover have "u * unshaded ! h \<le> u * max (shaded ! h) (unshaded ! h)"
      using u by (intro mult_left_mono) simp_all
    ultimately have "?b \<le> (1 - u) * max (shaded ! h) (unshaded ! h)
        + u * max (shaded ! h) (unshaded ! h)" unfolding b by (rule add_mono)
    then show ?thesis by (simp add: algebra_simps)
  qed
  have const: "frame ! h ! p = Some ?b" if all: "\<forall>i \<le> h. ?raw ! i ! p = Some ?b"
  proof -
    have "\<forall>i \<le> h. ?raw ! i ! p = Some (replicate (Suc h) ?b ! i)"
      using all by (simp del: replicate_Suc)
    then have "frame ! h ! p = Some (ewm_weighted_sum (1/5) (replicate (Suc h) ?b) h
        / ewm_weight_total (1/5) h)"
      using interpolate_entry_closed [OF assms(1,2,4)] by simp
    moreover have "ewm_weighted_sum (1/5) (replicate (Suc h) ?b) h / ewm_weight_total (1/5) h = ?b"
      by (rule ewm_constant) (simp_all del: replicate_Suc)
    ultimately show ?thesis by simp
  qed
  have at0: "?raw ! h ! p = Some (shaded ! h)" if "sky_view ! p = 0"
    using raw that by simp
  have at100: "?raw ! h ! p = Some (unshaded ! h)" if "sky_view ! p = 100"
    using raw that by (simp add: field_simps)
  show ?thesis using raw lo hi at0 at100 const by blast
qed

text \<open>
  C2 (as amended). The interpolated matrix is post-processed, for every point and at
  every hour, by linear gap filling followed by an exponentially weighted mean of span 1.5
  over all hours up to that one: where the point's values up to hour \<open>h\<close> are numbers
  \<open>ys\<close>, the entry at \<open>h\<close> is \<open>(\<Sum>i\<le>h. (1/5)^(h-i) * ys i) / (\<Sum>i\<le>h. (1/5)^(h-i))\<close>. There
  is no threshold and no window.
\<close>

theorem smoothing_is_global_ewm:
  assumes "interpolate_between_unshaded_shaded unshaded shaded total_irradiance sky_view sun_up_bool
             = Inr frame"
    and "p < length sky_view"
  shows "map (\<lambda>row. row ! p) frame
           = ewm_mean 1.5 (pd_interpolate (map (\<lambda>row. row ! p)
               (pre_smoothing unshaded shaded total_irradiance sky_view sun_up_bool)))
       \<and> (\<forall>h ys. h < length sun_up_bool \<and> length ys = Suc h
              \<and> (\<forall>i \<le> h. pre_smoothing unshaded shaded total_irradiance sky_view sun_up_bool ! i ! p
                     = Some (ys ! i))
            \<longrightarrow> frame ! h ! p
                  = Some (ewm_weighted_sum (1/5) ys h / ewm_weight_total (1/5) h))"
  using interpolate_result(6) [OF assms] interpolate_entry_closed [OF assms(1) _ assms(2)]
  by blast

lemmas interpolate_eval =
  interpolate_between_unshaded_shaded_def pre_smoothing_def columns_of_def ewm_mean_def
  daytime_row_def nighttime_row_def np_divide_def interp1d_sky_view_def Let_def upt_rec
  numeral_nat

lemma night_sample_eval:
  "interpolate_between_unshaded_shaded [18, 18, 60] [20, 20, 30] [[0, 0], [0, 0], [0, 100]]
       [0, 100] [False, False, True]
     = Inr [[Some 20, Some 18], [Some 20, Some 18], [Some (870 / 31), Some (1608 / 31)]]"
  by (simp add: interpolate_eval)

lemma night_sample_raw:
  "pre_smoothing [18, 18, 60] [20, 20, 30] [[0, 0], [0, 0], [0, 100]] [0, 100] [False, False, True]
     = [[Some 20, Some 18], [Some 20, Some 18], [Some 30, Some 60]]"
  by (simp add: interpolate_eval)

theorem nighttime_blend_before_smoothing_witness:
  "interpolate_between_unshaded_shaded [18, 18, 60] [20, 20, 30] [[0, 0], [0, 0], [0, 100]]
       [0, 100] [False, False, True]
     = Inr [[Some 20, Some 18], [Some 20, Some 18], [Some (870 / 31), Some (1608 / 31)]]
   \<and> (1::nat) < length [False, False, True] \<and> \<not> [False, False, True] ! 1
   \<and> [0, 100 :: real] ! 0 = 0 \<and> [0, 100 :: real] ! 1 = 100
   \<and> pre_smoothing [18, 18, 60] [20, 20, 30] [[0, 0], [0, 0], [0, 100]] [0, 100]
         [False, False, True] ! 1 ! 0 = Some ([20, 20, 30] ! 1)
   \<and> pre_smoothing [18, 18, 60] [20, 20, 30] [[0, 0], [0, 0], [0, 100]] [0, 100]
         [False, False, True] ! 1 ! 1 = Some ([18, 18, 60] ! 1)
   \<and> min (20::real) 18 \<le> 18 \<and> (18::real) \<le> max 20 18
   \<and> [[Some 20, Some 18], [Some 20, Some 18], [Some (870 / 31), Some (1608 / 31 :: real)]] ! 1 ! 1
        = Some 18"
proof -
  let ?frame = "[[Some 20, Some 18], [Some 20, Some 18], [Some (870 / 31), Some (1608 / 31 :: real)]]"
  have h: "(1::nat) < length [False, False, True]" and n: "\<not> [False, False, True] ! 1"
    and p0: "(0::nat) < length [0, 100 :: real]" and p1: "(1::nat) < length [0, 100 :: real]"
    by simp_all
  note A = nighttime_blend_before_smoothing [OF night_sample_eval h n p0]
  note B = nighttime_blend_before_smoothing [OF night_sample_eval h n p1]
  have "pre_smoothing [18, 18, 60] [20, 20, 30] [[0, 0], [0, 0], [0, 100]] [0, 100]
         [False, False, True] ! 1 ! 0 = Some ([20, 20, 30] ! 1)"
    using A by simp
  moreover have "pre_smoothing [18, 18, 60] [20, 20, 30] [[0, 0], [0, 0], [0, 100]] [0, 100]
         [False, False, True] ! 1 ! 1 = Some ([18, 18, 60] ! 1)"
    using B by simp
  moreover have "?frame ! 1 ! 1 = Some 18"
    using B by (simp add: night_sample_raw le_Suc_eq all_conj_distrib)
  ultimately show ?thesis using night_sample_eval by simp
qed

text \<open>
  The claim as written fails for the returned matrix: after a sun-up hour at 60, the
  value returned at a sun-down hour with shaded 20 and unshaded 18 (blend 18) is 25.
\<close>

theorem nighttime_smoothed_out_of_range_counterexample:
  "interpolate_between_unshaded_shaded [60, 18] [30, 20] [[0, 100], [0, 0]] [0, 100] [True, False]
     = Inr [[Some 30, Some 60], [Some (65 / 3), Some 25]]
   \<and> \<not> [True, False] ! 1
   \<and> [[Some 30, Some 60], [Some (65 / 3), Some (25::real)]] ! 1 ! 1 = Some 25
   \<and> \<not> (25 \<le> max ([30, 20] ! 1) ([60, 18 :: real] ! 1))
   \<and> [30, 20] ! 1 + ([60, 18] ! 1 - [30, 20] ! 1) * ([0, 100] ! 1 / 100) = (18 :: real)"
  by (simp add: interpolate_eval)

lemma rising_sample_eval:
  "interpolate_between_unshaded_shaded [12, 13, 14, 15, 16, 17] [10, 15, 16, 17, 18, 19]
       [[0, 100], [0, 0], [0, 0], [0, 0], [0, 0], [0, 0]] [0, 100]
       [True, False, False, False, False, False]
     = Inr [[Some 10, Some 12], [Some (85 / 6), Some (77 / 6)],
            [Some (485 / 31), Some (427 / 31)], [Some (435 / 26), Some (1151 / 78)],
            [Some (1260 / 71), Some (12302 / 781)], [Some (73235 / 3906), Some (21809 / 1302)]]"
  by (simp add: interpolate_eval)

lemma rising_sample_raw:
  "pre_smoothing [12, 13, 14, 15, 16, 17] [10, 15, 16, 17, 18, 19]
       [[0, 100], [0, 0], [0, 0], [0, 0], [0, 0], [0, 0]] [0, 100]
       [True, False, False, False, False, False]
     = [[Some 10, Some 12], [Some 15, Some 13], [Some 16, Some 14],
        [Some 17, Some 15], [Some 18, Some 16], [Some 19, Some 17]]"
  by (simp add: interpolate_eval)

theorem smoothing_is_global_ewm_witness:
  "interpolate_between_unshaded_shaded [12, 13, 14, 15, 16, 17] [10, 15, 16, 17, 18, 19]
       [[0, 100], [0, 0], [0, 0], [0, 0], [0, 0], [0, 0]] [0, 100]
       [True, False, False, False, False, False]
     = Inr [[Some 10, Some 12], [Some (85 / 6), Some (77 / 6)],
            [Some (485 / 31), Some (427 / 31)], [Some (435 / 26), Some (1151 / 78)],
            [Some (1260 / 71), Some (12302 / 781)], [Some (73235 / 3906), Some (21809 / 1302)]]
   \<and> map (\<lambda>row. row ! 1)
         [[Some 10, Some 12], [Some (85 / 6), Some (77 / 6)],
          [Some (485 / 31), Some (427 / 31)], [Some (435 / 26), Some (1151 / 78)],
          [Some (1260 / 71), Some (12302 / 781)], [Some (73235 / 3906), Some (21809 / 1302)]]
       = ewm_mean 1.5 (pd_interpolate [Some 12, Some 13, Some 14, Some 15, Some 16, Some 17])
   \<and> ewm_weighted_sum (1/5) [12, 13, 14, 15, 16, 17] 5 / ewm_weight_total (1/5) 5
       = 21809 / 1302"
proof -
  have p: "(1::nat) < length [0, 100 :: real]" by simp
  note T = smoothing_is_global_ewm [OF rising_sample_eval p]
  have col: "map (\<lambda>row. row ! 1)
         [[Some 10, Some 12], [Some (85 / 6), Some (77 / 6)],
          [Some (485 / 31), Some (427 / 31)], [Some (435 / 26), Some (1151 / 78)],
          [Some (1260 / 71), Some (12302 / 781)], [Some (73235 / 3906), Some (21809 / 1302 :: real)]]
       = ewm_mean 1.5 (pd_interpolate [Some 12, Some 13, Some 14, Some 15, Some 16, Some 17])"
    using T unfolding rising_sample_raw by simp
  have "(5::nat) < length [True, False, False, False, False, False]
      \<and> length [12, 13, 14, 15, 16, 17 :: real] = Suc 5
      \<and> (\<forall>i \<le> 5. pre_smoothing [12, 13, 14, 15, 16, 17] [10, 15, 16, 17, 18, 19]
            [[0, 100], [0, 0], [0, 0], [0, 0], [0, 0], [0, 0]] [0, 100]
            [True, False, False, False, False, False] ! i ! 1
          = Some ([12, 13, 14, 15, 16, 17] ! i))"
    unfolding rising_sample_raw by (simp add: le_Suc_eq eval_nat_numeral all_conj_distrib)
  then have "[[Some 10, Some 12], [Some (85 / 6), Some (77 / 6)],
          [Some (485 / 31), Some (427 / 31)], [Some (435 / 26), Some (1151 / 78)],
          [Some (1260 / 71), Some (12302 / 781)], [Some (73235 / 3906), Some (21809 / 1302 :: real)]]
       ! 5 ! 1
      = Some (ewm_weighted_sum (1/5) [12, 13, 14, 15, 16, 17] 5 / ewm_weight_total (1/5) 5)"
    using T by blast
  then have "ewm_weighted_sum (1/5) [12, 13, 14, 15, 16, 17] 5 / ewm_weight_total (1/5) 5
       = 21809 / 1302"
    by simp
  then show ?thesis using rising_sample_eval col by simp
qed

text \<open>
  The claim as written fails: in a series that only rises (12, 13, ..., 17), so with no
  drop at any hour, the value returned at the sixth hour is \<open>21809 / 1302\<close>, not the
  interpolated 17.
\<close>

theorem smoothing_without_drop_counterexample:
  "interpolate_between_unshaded_shaded [12, 13, 14, 15, 16, 17] [10, 15, 16, 17, 18, 19]
       [[0, 100], [0, 0], [0, 0], [0, 0], [0, 0], [0, 0]] [0, 100]
       [True, False, False, False, False, False]
     = Inr [[Some 10, Some 12], [Some (85 / 6), Some (77 / 6)],
            [Some (485 / 31), Some (427 / 31)], [Some (435 / 26), Some (1151 / 78)],
            [Some (1260 / 71), Some (12302 / 781)], [Some (73235 / 3906), Some (21809 / 1302)]]
   \<and> map (\<lambda>row. row ! 1)
        (pre_smoothing [12, 13, 14, 15, 16, 17] [10, 15, 16, 17, 18, 19]
           [[0, 100], [0, 0], [0, 0], [0, 0], [0, 0], [0, 0]] [0, 100]
           [True, False, False, False, False, False])
       = [Some 12, Some 13, Some 14, Some 15, Some 16, Some 17]
   \<and> (21809 / 1302 :: real) \<noteq> 17"
  by (simp add: interpolate_eval)

subsection \<open>Loading moisture sources\<close>

text \<open>
  C9. When the simulation directory has no \<^verbatim>\<open>moisture_sources.json\<close>, loading the
  moisture sources raises nothing: it emits one warning and returns the empty list.
\<close>

theorem load_moisture_sources_absent:
  assumes "json_files ''moisture_sources.json'' = None"
  shows "load_moisture_sources decode json_files
           = (Inr [],
              [''No moisture_sources.json found in simulation directory - advanced moisture-impacted UTCI not possible.''])"
  using assms by (simp add: load_moisture_sources_def from_json_def)

theorem load_moisture_sources_absent_witness:
  "(Map.empty :: string \<rightharpoonup> string) ''moisture_sources.json'' = None
   \<and> fst (load_moisture_sources sample_decode Map.empty) = Inr []
   \<and> length (snd (load_moisture_sources sample_decode Map.empty)) = 1"
  using load_moisture_sources_absent [of Map.empty sample_decode] by simp

subsection \<open>Matrix accessors and their cache files\<close>

lemma mean_radiant_temperature_matrix_cached:
  "h5 d ''mean_radiant_temperature_matrix.h5'' = Some df \<Longrightarrow>
     mean_radiant_temperature_matrix sc d = Inr (df, d)"
  by (simp add: mean_radiant_temperature_matrix_def)

lemma dry_bulb_temperature_matrix_cached:
  "h5 d ''dry_bulb_temperature_matrix.h5'' = Some df \<Longrightarrow>
     dry_bulb_temperature_matrix ext sc d = Inr (Some df, d)"
  by (simp add: dry_bulb_temperature_matrix_def)

lemma relative_humidity_matrix_cached:
  "h5 d ''relative_humidity_matrix.h5'' = Some df \<Longrightarrow>
     relative_humidity_matrix ext sc d = Inr (Some df, d)"
  by (simp add: relative_humidity_matrix_def)

lemma universal_thermal_climate_index_matrix_cached:
  "h5 d ''universal_thermal_climate_index_matrix.h5'' = Some df \<Longrightarrow>
     universal_thermal_climate_index_matrix ext sc d = Inr (df, d)"
  by (simp add: universal_thermal_climate_index_matrix_def)

lemma mean_radiant_temperature_matrix_other_file:
  assumes "path \<noteq> ''mean_radiant_temperature_matrix.h5''"
  shows "mean_radiant_temperature_matrix sc (write_h5 d path x)
           = map_sum id (\<lambda>(mrt, d'). (mrt, write_h5 d' path x)) (mean_radiant_temperature_matrix sc d)"
proof -
  have sw: "write_h5 (write_h5 d path x) ''mean_radiant_temperature_matrix.h5'' m
      = write_h5 (write_h5 d ''mean_radiant_temperature_matrix.h5'' m) path x" for m
    using assms by (simp add: write_h5_def fun_upd_twist)
  show ?thesis
    using assms
    by (auto simp: mean_radiant_temperature_matrix_def Let_def sw split: option.splits sum.splits)
      (simp_all add: write_h5_def)
qed

lemma wind_speed_matrix_never_reads:
  "map_sum id fst (wind_speed_matrix sc (write_h5 d ''wind_speed_matrix.h5'' x))
     = map_sum id fst (wind_speed_matrix sc d)"
proof -
  have "mean_radiant_temperature_matrix sc (write_h5 d ''wind_speed_matrix.h5'' x)
      = map_sum id (\<lambda>(mrt, d'). (mrt, write_h5 d' ''wind_speed_matrix.h5'' x))
          (mean_radiant_temperature_matrix sc d)"
    by (rule mean_radiant_temperature_matrix_other_file) simp
  then show ?thesis
    by (auto simp: wind_speed_matrix_def Let_def split: sum.splits)
qed

lemma repeat_series_columns:
  assumes "repeat_series series mrt = Inr df"
  shows "length df = length series"
    and "\<And>p. p < n_columns mrt \<Longrightarrow> map (\<lambda>row. row ! p) df = map Num series"
  using assms by (auto simp: repeat_series_def split: if_splits)

lemma dry_bulb_temperature_matrix_no_sources:
  assumes "moisture_sources sc = []" and "h5 d ''dry_bulb_temperature_matrix.h5'' = None"
    and "dry_bulb_temperature_matrix ext sc d = Inr (r, d')"
  shows "r = None"
    and "\<exists>mrt d1 dbt. mean_radiant_temperature_matrix sc d = Inr (mrt, d1)
           \<and> repeat_series (epw_dry_bulb_temperature sc) mrt = Inr dbt
           \<and> h5 d' ''dry_bulb_temperature_matrix.h5'' = Some dbt"
  using assms
  by (auto simp: dry_bulb_temperature_matrix_def Let_def write_h5_def split: sum.splits)

lemma relative_humidity_matrix_no_sources:
  assumes "moisture_sources sc = []" and "h5 d ''relative_humidity_matrix.h5'' = None"
    and "relative_humidity_matrix ext sc d = Inr (r, d')"
  shows "r = None"
    and "\<exists>mrt d1 rh. mean_radiant_temperature_matrix sc d = Inr (mrt, d1)
           \<and> repeat_series (epw_relative_humidity sc) mrt = Inr rh
           \<and> h5 d' ''relative_humidity_matrix.h5'' = Some rh"
  using assms
  by (auto simp: relative_humidity_matrix_def Let_def write_h5_def split: sum.splits)

lemma float16_exact:
  "float16_round 0 = Num 0" "float16_round 20 = Num 20" "float16_round 30 = Num 30"
  "float16_round 40 = Num 40"
  by (simp_all add: float16_round_def round_half_even_def eval_nat_numeral)

lemma sample_interpolated:
  "interpolate_between_unshaded_shaded [40, 40] [20, 20] [[0, 50, 100], [0, 0, 0]] [0, 50, 100]
       (map (\<lambda>g. g > 0) [100, 0 :: real])
     = Inr [[Some 20, Some 30, Some 40], [Some 20, Some 30, Some 40]]"
  by (simp add: interpolate_eval)

lemma sample_mrt_computed:
  assumes "h5 d ''mean_radiant_temperature_matrix.h5'' = None"
    and "unshaded_mean_radiant_temperature sc = [40, 40]"
    and "shaded_mean_radiant_temperature sc = [20, 20]"
    and "total_irradiance_matrix sc = [[0, 50, 100], [0, 0, 0]]"
    and "sky_view_table sc = [0, 50, 100]"
    and "epw_global_horizontal_radiation sc = [100, 0]"
  shows "mean_radiant_temperature_matrix sc d
     = Inr (sample_mrt, write_h5 d ''mean_radiant_temperature_matrix.h5'' sample_mrt)"
  unfolding mean_radiant_temperature_matrix_def assms Let_def sample_interpolated
  by (simp add: sample_mrt_def number_of_cell_def float16_exact)

lemma sample_mrt_eval:
  "mean_radiant_temperature_matrix sample_comfort empty_disk
     = Inr (sample_mrt, write_h5 empty_disk ''mean_radiant_temperature_matrix.h5'' sample_mrt)"
  by (rule sample_mrt_computed) (simp_all add: sample_comfort_def empty_disk_def)

lemma sample_fields:
  "moisture_sources sample_comfort = []"
  "epw_dry_bulb_temperature sample_comfort = [25, 15]"
  "epw_relative_humidity sample_comfort = [40, 70]"
  "epw_wind_speed sample_comfort = [3, 1]"
  by (simp_all add: sample_comfort_def)

text \<open>
  C7. The accessors of the MRT, dry-bulb, humidity and UTCI matrices return the content
  of their cache file when it exists and leave the disk as it is (the four lemmas above).
  The wind-speed accessor does not: it never reads its file (lemma
  \<open>wind_speed_matrix_never_reads\<close>). With a file \<^verbatim>\<open>wind_speed_matrix.h5\<close> present, it
  returns the recomputed matrix and overwrites the file.
\<close>

theorem wind_speed_matrix_ignores_cache:
  "h5 (write_h5 empty_disk ''wind_speed_matrix.h5'' stale_frame) ''wind_speed_matrix.h5''
     = Some stale_frame
   \<and> map_sum id fst
        (wind_speed_matrix sample_comfort (write_h5 empty_disk ''wind_speed_matrix.h5'' stale_frame))
       = Inr [[Num 3, Num 3, Num 3], [Num 1, Num 1, Num 1]]
   \<and> map_sum id (\<lambda>r. h5 (snd r) ''wind_speed_matrix.h5'')
        (wind_speed_matrix sample_comfort (write_h5 empty_disk ''wind_speed_matrix.h5'' stale_frame))
       = Inr (Some [[Num 3, Num 3, Num 3], [Num 1, Num 1, Num 1]])
   \<and> stale_frame \<noteq> [[Num 3, Num 3, Num 3], [Num 1, Num 1, Num 1]]"
proof -
  have m: "mean_radiant_temperature_matrix sample_comfort
             (write_h5 empty_disk ''wind_speed_matrix.h5'' stale_frame)
      = Inr (sample_mrt,
             write_h5 (write_h5 empty_disk ''mean_radiant_temperature_matrix.h5'' sample_mrt)
               ''wind_speed_matrix.h5'' stale_frame)"
    by (simp add: mean_radiant_temperature_matrix_other_file sample_mrt_eval)
  have r: "repeat_series [3, 1] sample_mrt = Inr [[Num 3, Num 3, Num 3], [Num 1, Num 1, Num 1]]"
    by (simp add: repeat_series_def sample_mrt_def n_columns_def numeral_nat)
  have w: "wind_speed_matrix sample_comfort (write_h5 empty_disk ''wind_speed_matrix.h5'' stale_frame)
      = Inr ([[Num 3, Num 3, Num 3], [Num 1, Num 1, Num 1]],
             write_h5
               (write_h5 (write_h5 empty_disk ''mean_radiant_temperature_matrix.h5'' sample_mrt)
                  ''wind_speed_matrix.h5'' stale_frame)
               ''wind_speed_matrix.h5'' [[Num 3, Num 3, Num 3], [Num 1, Num 1, Num 1]])"
    by (simp add: wind_speed_matrix_def m r sample_fields)
  show ?thesis
    unfolding w by (simp add: write_h5_def stale_frame_def)
qed

text \<open>
  C8. With no moisture sources and no cache file, the dry-bulb and the humidity accessor
  build the matrix whose columns are the weather series and write it to its file, but
  return \<^verbatim>\<open>None\<close>: the branch has no \<^verbatim>\<open>return\<close>. The UTCI accessor, which reads
  \<^verbatim>\<open>.values\<close> of the result, then raises.
\<close>

theorem no_sources_accessors_return_none:
  "moisture_sources sample_comfort = []
   \<and> (\<forall>ext. map_sum id fst (dry_bulb_temperature_matrix ext sample_comfort empty_disk) = Inr None)
   \<and> (\<forall>ext. map_sum id (\<lambda>r. h5 (snd r) ''dry_bulb_temperature_matrix.h5'')
                (dry_bulb_temperature_matrix ext sample_comfort empty_disk)
              = Inr (Some [[Num 25, Num 25, Num 25], [Num 15, Num 15, Num 15]]))
   \<and> (\<forall>ext. map_sum id fst (relative_humidity_matrix ext sample_comfort empty_disk) = Inr None)
   \<and> (\<forall>ext. map_sum id (\<lambda>r. h5 (snd r) ''relative_humidity_matrix.h5'')
                (relative_humidity_matrix ext sample_comfort empty_disk)
              = Inr (Some [[Num 40, Num 40, Num 40], [Num 70, Num 70, Num 70]]))
   \<and> (\<forall>ext. universal_thermal_climate_index_matrix ext sample_comfort empty_disk
              = Inl AttributeError)"
proof -
  have e: "h5 empty_disk p = None" for p by (simp add: empty_disk_def)
  have d: "repeat_series [25, 15] sample_mrt
      = Inr [[Num 25, Num 25, Num 25], [Num 15, Num 15, Num 15]]"
    by (simp add: repeat_series_def sample_mrt_def n_columns_def numeral_nat)
  have h: "repeat_series [40, 70] sample_mrt
      = Inr [[Num 40, Num 40, Num 40], [Num 70, Num 70, Num 70]]"
    by (simp add: repeat_series_def sample_mrt_def n_columns_def numeral_nat)
  have dbt: "dry_bulb_temperature_matrix ext sample_comfort empty_disk
      = Inr (None, write_h5 (write_h5 empty_disk ''mean_radiant_temperature_matrix.h5'' sample_mrt)
               ''dry_bulb_temperature_matrix.h5''
               [[Num 25, Num 25, Num 25], [Num 15, Num 15, Num 15]])" for ext
    by (simp add: dry_bulb_temperature_matrix_def e sample_fields sample_mrt_eval d)
  have rh: "relative_humidity_matrix ext sample_comfort empty_disk
      = Inr (None, write_h5 (write_h5 empty_disk ''mean_radiant_temperature_matrix.h5'' sample_mrt)
               ''relative_humidity_matrix.h5''
               [[Num 40, Num 40, Num 40], [Num 70, Num 70, Num 70]])" for ext
    by (simp add: relative_humidity_matrix_def e sample_fields sample_mrt_eval h)
  have utci: "universal_thermal_climate_index_matrix ext sample_comfort empty_disk
      = Inl AttributeError" for ext
    by (simp add: universal_thermal_climate_index_matrix_def e dbt values_of_def)
  show ?thesis
    by (simp add: dbt rh utci sample_fields write_h5_def)
qed

subsection \<open>Bounds of the moisture matrix\<close>

lemma float16_binade_lower:
  "0 < float16_binade n a \<Longrightarrow> 2 ^ float16_binade n a / 2 ^ 14 \<le> a"
  by (induction n) (auto split: if_splits)

lemma round_half_even_nonneg: "0 \<le> y \<Longrightarrow> 0 \<le> round_half_even y"
  by (auto simp: round_half_even_def Let_def intro: add_nonneg_nonneg)

lemma round_half_even_le:
  assumes "y \<le> of_int N"
  shows "round_half_even y \<le> N"
proof -
  have f: "\<lfloor>y\<rfloor> \<le> N" using assms by (simp add: floor_le_iff)
  show ?thesis
  proof (cases "\<lfloor>y\<rfloor> = N")
    case True
    then have "of_int N \<le> y" by (metis of_int_floor_le)
    then have "y - of_int \<lfloor>y\<rfloor> = 0" using assms True by simp
    then show ?thesis using True by (simp add: round_half_even_def Let_def)
  next
    case False
    then have "\<lfloor>y\<rfloor> + 1 \<le> N" using f by simp
    then show ?thesis using f by (auto simp: round_half_even_def Let_def)
  qed
qed

lemma float16_round_unit:
  assumes "0 \<le> v" "v \<le> 1"
  shows "\<exists>u. float16_round v = Num u \<and> 0 \<le> u \<and> u \<le> 1"
proof -
  define k where "k = float16_binade 29 \<bar>v\<bar>"
  define ulp :: real where "ulp = 2 ^ k / 2 ^ 24"
  define r where "r = of_int (round_half_even (v / ulp)) * ulp"
  have k14: "k \<le> 14"
  proof (cases "k = 0")
    case True
    then show ?thesis by simp
  next
    case False
    then have "2 ^ k / 2 ^ 14 \<le> \<bar>v\<bar>"
      unfolding k_def using float16_binade_lower [of 29 "\<bar>v\<bar>"] by simp
    then have "(2::real) ^ k \<le> 2 ^ 14" using assms by (simp add: field_simps)
    then show ?thesis using power_increasing_iff [of "2::real" k 14] by simp
  qed
  have ulp_pos: "0 < ulp" by (simp add: ulp_def)
  have inv: "1 / ulp = of_int (2 ^ (24 - k))"
  proof -
    have e: "(2::real) ^ (24 - k) = 2 ^ 24 / 2 ^ k"
      using k14 by (intro power_diff) simp_all
    show ?thesis unfolding ulp_def by (simp add: e)
  qed
  have "v / ulp \<le> 1 / ulp" using assms(2) ulp_pos by (simp add: divide_right_mono)
  then have up: "round_half_even (v / ulp) \<le> 2 ^ (24 - k)"
    using inv by (intro round_half_even_le) simp
  have lo: "0 \<le> round_half_even (v / ulp)"
    using assms(1) ulp_pos by (intro round_half_even_nonneg) simp
  have r0: "0 \<le> r" unfolding r_def using lo ulp_pos by simp
  have "r \<le> of_int (2 ^ (24 - k)) * ulp"
    unfolding r_def using up ulp_pos by (intro mult_right_mono) simp_all
  also have "\<dots> = 1" using inv ulp_pos by (simp add: field_simps)
  finally have r1: "r \<le> 1" .
  have "float16_round v = Num r"
    using r0 r1 by (simp add: float16_round_def Let_def r_def ulp_def k_def)
  then show ?thesis using r0 r1 by blast
qed

lemma moisture_matrix_Inr:
  assumes "moisture_matrix sc d = Inr (mm, d')"
  shows "\<exists>m files'. moisture_matrix_values (npy d) (epw_wind_speed sc) (epw_wind_direction sc)
             (moisture_sources sc) = Inr (m, files')
           \<and> mm = map (map (astype_float16 \<circ> Num)) m"
  using assms by (auto simp: moisture_matrix_def split: sum.splits if_splits)

lemma sample_calm_values:
  "moisture_matrix_values Map.empty [0, 0] [90, 180] [sample_source_c]
     = Inr ([[4/25, 0, 0], [4/25, 0, 0]], [''c.npy'' \<mapsto> [[4/25, 0, 0], [4/25, 0, 0]]])"
  by (simp add: moisture_eval sample_source_c_def)

lemma sample_calm_fields:
  "moisture_sources sample_calm_comfort = [sample_source_c]"
  "epw_wind_speed sample_calm_comfort = [0, 0]"
  "epw_wind_direction sample_calm_comfort = [90, 180]"
  "npy empty_disk = Map.empty"
  by (simp_all add: sample_calm_comfort_def sample_comfort_def empty_disk_def)

lemma float16_sixteen_hundredths: "float16_round (4/25) = Num (1311/8192)"
  by (simp add: float16_round_def round_half_even_def eval_nat_numeral)

lemma sample_calm_matrix:
  "map_sum id fst (moisture_matrix sample_calm_comfort empty_disk)
     = Inr [[Num (1311/8192), Num 0, Num 0], [Num (1311/8192), Num 0, Num 0]]"
proof -
  have m: "mean_radiant_temperature_matrix sample_calm_comfort
             (empty_disk\<lparr>npy := [''c.npy'' \<mapsto> [[4/25, 0, 0], [4/25, 0, 0]]]\<rparr>)
      = Inr (sample_mrt,
             write_h5 (empty_disk\<lparr>npy := [''c.npy'' \<mapsto> [[4/25, 0, 0], [4/25, 0, 0]]]\<rparr>)
               ''mean_radiant_temperature_matrix.h5'' sample_mrt)"
    by (rule sample_mrt_computed)
      (simp_all add: sample_calm_comfort_def sample_comfort_def empty_disk_def)
  show ?thesis
    unfolding moisture_matrix_def sample_calm_fields sample_calm_values
    by (simp add: m sample_mrt_def float16_sixteen_hundredths float16_exact)
qed

text \<open>
  C10 (as amended). When no per-source file is loaded and the largest source magnitude
  \<open>M\<close> is not negative, every entry of the per-wind-state field, and of the hourly
  moisture matrix before its cast, lies in \<open>[0, M]\<close>, whatever the distances, and is at
  most 1 when all magnitudes are at most 1. Every entry of the matrix the
  \<open>moisture_matrix\<close> accessor returns is the \<^verbatim>\<open>float16\<close> rounding of such a value: the
  rounding can carry it above \<open>M\<close>, and with all magnitudes at most 1 the entry lies in
  \<open>[0, 1]\<close>.
\<close>

theorem moisture_effectiveness_bounded:
  assumes "\<forall>s \<in> set sources. files (pathsafe_id s @ ''.npy'') = None"
    and "distinct (map pathsafe_id sources)"
    and "0 \<le> Max (magnitude ` set sources)"
  shows "(\<forall>field files'. moisture_source_matrix_unique files winds sources = Inr (field, files')
            \<longrightarrow> (\<forall>row \<in> set field. \<forall>v \<in> set row.
                   0 \<le> v \<and> v \<le> Max (magnitude ` set sources)
                   \<and> ((\<forall>s \<in> set sources. magnitude s \<le> 1) \<longrightarrow> v \<le> 1)))
       \<and> (\<forall>m files'. moisture_matrix_values files wind_speed wind_direction sources = Inr (m, files')
            \<longrightarrow> (\<forall>row \<in> set m. \<forall>v \<in> set row.
                   0 \<le> v \<and> v \<le> Max (magnitude ` set sources)
                   \<and> ((\<forall>s \<in> set sources. magnitude s \<le> 1) \<longrightarrow> v \<le> 1)))
       \<and> (\<forall>sc d mm d'. moisture_sources sc = sources \<and> npy d = files
              \<and> moisture_matrix sc d = Inr (mm, d')
            \<longrightarrow> (\<forall>row \<in> set mm. \<forall>e \<in> set row.
                   (\<exists>v. e = astype_float16 (Num v) \<and> 0 \<le> v \<and> v \<le> Max (magnitude ` set sources))
                   \<and> ((\<forall>s \<in> set sources. magnitude s \<le> 1)
                        \<longrightarrow> (\<exists>u. e = Num u \<and> 0 \<le> u \<and> u \<le> 1))))"
proof -
  let ?ok = "\<lambda>v. 0 \<le> v \<and> v \<le> Max (magnitude ` set sources)
       \<and> ((\<forall>s \<in> set sources. magnitude s \<le> 1) \<longrightarrow> v \<le> 1)"
  have unit: "Max (magnitude ` set sources) \<le> 1"
    if "\<forall>s \<in> set sources. magnitude s \<le> 1" "sources \<noteq> []"
    using that by (simp add: Max_le_iff)
  have field: "?ok v"
    if res: "moisture_source_matrix_unique files winds' sources = Inr (field, files')"
      and row: "row \<in> set field" and v: "v \<in> set row" for winds' field files' row v
  proof -
    have b: "0 \<le> v \<and> v \<le> Max (magnitude ` set sources)"
      using moisture_field_entry_bounds [OF res assms row v] .
    have ne: "sources \<noteq> []" using moisture_field_structure(1) [OF res assms(1,2)] .
    have "v \<le> 1" if "\<forall>s \<in> set sources. magnitude s \<le> 1"
      using unit [OF that ne] b by linarith
    then show ?thesis using b by blast
  qed
  have hourly: "?ok v"
    if mm: "moisture_matrix_values files ws wd sources = Inr (m, files')"
      and row: "row \<in> set m" and v: "v \<in> set row" for ws wd m files' row v
  proof -
    from mm obtain winds' unique_matrix indices where
      u: "moisture_source_matrix_unique files winds' sources = Inr (unique_matrix, files')"
      and t: "take_rows unique_matrix indices = Inr m"
      by (auto simp: moisture_matrix_values_def split: sum.splits)
    have "row \<in> set unique_matrix" using take_rows_set [OF t] row by blast
    then show ?thesis using field [OF u _ v] by blast
  qed
  have first: "\<forall>field files'. moisture_source_matrix_unique files winds sources = Inr (field, files')
            \<longrightarrow> (\<forall>row \<in> set field. \<forall>v \<in> set row. ?ok v)"
    using field by blast
  have second: "\<forall>m files'. moisture_matrix_values files wind_speed wind_direction sources
              = Inr (m, files')
            \<longrightarrow> (\<forall>row \<in> set m. \<forall>v \<in> set row. ?ok v)"
    using hourly by blast
  have third: "\<forall>sc d mm d'. moisture_sources sc = sources \<and> npy d = files
              \<and> moisture_matrix sc d = Inr (mm, d')
            \<longrightarrow> (\<forall>row \<in> set mm. \<forall>e \<in> set row.
                   (\<exists>v. e = astype_float16 (Num v) \<and> 0 \<le> v \<and> v \<le> Max (magnitude ` set sources))
                   \<and> ((\<forall>s \<in> set sources. magnitude s \<le> 1)
                        \<longrightarrow> (\<exists>u. e = Num u \<and> 0 \<le> u \<and> u \<le> 1)))"
  proof (intro allI impI ballI)
    fix sc d mm d' row e
    assume a: "moisture_sources sc = sources \<and> npy d = files
        \<and> moisture_matrix sc d = Inr (mm, d')"
      and row: "row \<in> set mm" and e: "e \<in> set row"
    from a moisture_matrix_Inr [of sc d mm d'] obtain m files' where
      m: "moisture_matrix_values files (epw_wind_speed sc) (epw_wind_direction sc) sources
            = Inr (m, files')"
      and mm: "mm = map (map (astype_float16 \<circ> Num)) m"
      by auto
    from row mm obtain r where r: "r \<in> set m" "row = map (astype_float16 \<circ> Num) r" by auto
    from e r(2) obtain v where v: "v \<in> set r" "e = astype_float16 (Num v)" by auto
    note ok = hourly [OF m r(1) v(1)]
    have one: "\<exists>u. e = Num u \<and> 0 \<le> u \<and> u \<le> 1" if "\<forall>s \<in> set sources. magnitude s \<le> 1"
      using float16_round_unit [of v] ok that v(2) by simp
    show "(\<exists>v. e = astype_float16 (Num v) \<and> 0 \<le> v \<and> v \<le> Max (magnitude ` set sources))
        \<and> ((\<forall>s \<in> set sources. magnitude s \<le> 1) \<longrightarrow> (\<exists>u. e = Num u \<and> 0 \<le> u \<and> u \<le> 1))"
      using ok v(2) one by blast
  qed
  show ?thesis using first second third by blast
qed

theorem moisture_effectiveness_bounded_witness:
  "distinct (map pathsafe_id [sample_source_a, sample_source_b])
   \<and> Max (magnitude ` set [sample_source_a, sample_source_b]) = 1/2
   \<and> moisture_matrix_values Map.empty [0, 1, 0] [0, 90, 0] [sample_source_a, sample_source_b]
       = Inr ([[1/2, 4/25, 6/25, 21/50], [0, 3/8, 0, 12/25], [1/2, 4/25, 6/25, 21/50]], sample_npy)
   \<and> list_all (list_all (\<lambda>v. 0 \<le> v \<and> v \<le> Max (magnitude ` set [sample_source_a, sample_source_b])
        \<and> v \<le> 1))
        [[1/2, 4/25, 6/25, 21/50], [0, 3/8, 0, 12/25], [1/2, 4/25, 6/25, 21/50]]
   \<and> Max (magnitude ` set [sample_source_c]) = 4/25
   \<and> map_sum id fst (moisture_matrix sample_calm_comfort empty_disk)
       = Inr [[Num (1311/8192), Num 0, Num 0], [Num (1311/8192), Num 0, Num 0]]
   \<and> list_all (list_all (\<lambda>e. e \<in> Num ` {0..1}))
        [[Num (1311/8192), Num 0, Num 0], [Num (1311/8192), Num 0, Num 0]]"
proof -
  have a: "\<forall>s \<in> set [sample_source_a, sample_source_b]. Map.empty (pathsafe_id s @ ''.npy'') = None"
    by simp
  have b: "distinct (map pathsafe_id [sample_source_a, sample_source_b])"
    by (simp add: sample_source_a_def sample_source_b_def)
  have c: "Max (magnitude ` set [sample_source_a, sample_source_b]) = 1/2"
    by (simp add: sample_source_a_def sample_source_b_def)
  have d: "0 \<le> Max (magnitude ` set [sample_source_a, sample_source_b])" using c by simp
  have e: "\<forall>s \<in> set [sample_source_a, sample_source_b]. magnitude s \<le> 1"
    by (simp add: sample_source_a_def sample_source_b_def)
  from moisture_effectiveness_bounded [OF a b d, of "[]" "[0, 1, 0]" "[0, 90, 0]"] sample_matrix_eval e
  have "\<forall>row \<in> set [[1/2, 4/25, 6/25, 21/50], [0, 3/8, 0, 12/25], [1/2, 4/25, 6/25, 21/50]].
          \<forall>v \<in> set row. 0 \<le> v \<and> v \<le> Max (magnitude ` set [sample_source_a, sample_source_b]) \<and> v \<le> 1"
    by blast
  then have first: "list_all (list_all (\<lambda>v. 0 \<le> v \<and> v \<le> Max (magnitude ` set [sample_source_a, sample_source_b])
        \<and> v \<le> 1))
        [[1/2, 4/25, 6/25, 21/50], [0, 3/8, 0, 12/25], [1/2, 4/25, 6/25, 21/50]]"
    unfolding list_all_iff by blast
  have a': "\<forall>s \<in> set [sample_source_c]. Map.empty (pathsafe_id s @ ''.npy'') = None" by simp
  have b': "distinct (map pathsafe_id [sample_source_c])" by simp
  have c': "Max (magnitude ` set [sample_source_c]) = 4/25" by (simp add: sample_source_c_def)
  have d': "0 \<le> Max (magnitude ` set [sample_source_c])" using c' by simp
  have e': "\<forall>s \<in> set [sample_source_c]. magnitude s \<le> 1" by (simp add: sample_source_c_def)
  obtain d1 where acc: "moisture_matrix sample_calm_comfort empty_disk
      = Inr ([[Num (1311/8192), Num 0, Num 0], [Num (1311/8192), Num 0, Num 0]], d1)"
    using sample_calm_matrix by (cases "moisture_matrix sample_calm_comfort empty_disk") auto
  from moisture_effectiveness_bounded [OF a' b' d', of "[]" "[]" "[]"] acc e' sample_calm_fields(1,4)
  have "\<forall>row \<in> set [[Num (1311/8192), Num 0, Num 0], [Num (1311/8192), Num 0, Num 0]].
          \<forall>e \<in> set row. \<exists>u. e = Num u \<and> 0 \<le> u \<and> u \<le> 1"
    by blast
  then have second: "list_all (list_all (\<lambda>e. e \<in> Num ` {0..1}))
        [[Num (1311/8192), Num 0, Num 0], [Num (1311/8192), Num 0, Num 0]]"
    unfolding list_all_iff by (auto simp: image_iff)
  show ?thesis using b c first c' sample_matrix_eval sample_calm_matrix second by blast
qed

text \<open>
  The claim as written fails for the matrix the accessor returns: a source of magnitude
  0.16 gives, at its own position in calm air, the entry \<open>1311 / 8192\<close>, the \<^verbatim>\<open>float16\<close>
  nearest to 0.16, which is above the largest magnitude.
\<close>

theorem moisture_matrix_rounding_counterexample:
  "map_sum id fst (moisture_matrix sample_calm_comfort empty_disk)
     = Inr [[Num (1311/8192), Num 0, Num 0], [Num (1311/8192), Num 0, Num 0]]
   \<and> Max (magnitude ` set (moisture_sources sample_calm_comfort)) = 4/25
   \<and> \<not> ((1311/8192 :: real) \<le> 4/25)"
  by (simp add: sample_calm_matrix sample_calm_fields sample_source_c_def)

end
